theory Spec2Isabelle
  imports Complex_Main
begin

section \<open>JavaScript values used by the player\<close>

subsection \<open>Numbers\<close>

text \<open>
  A JavaScript \<^verbatim>\<open>number\<close> is an IEEE 754 binary64 value. A finite one is modelled by
  the rational it denotes (\<open>Fin\<close>), next to the two infinities and NaN. Every
  arithmetic operation computes the exact result and rounds it to the nearest double,
  ties to even, as the hardware does. The two zeros are one value here: the
  operations the player applies (\<^verbatim>\<open>+\<close>, \<^verbatim>\<open>*\<close>, division by 1000, comparisons,
  truthiness) cannot tell them apart.
\<close>

datatype jsnum = Fin rat | PosInf | NegInf | NaN

text \<open>The number of binary digits of a positive integer.\<close>

function bit_length :: "int \<Rightarrow> nat" where
  "bit_length n = (if n \<le> 0 then 0 else Suc (bit_length (n div 2)))"
  by pat_completeness auto
termination
  by (relation "measure nat") auto

text \<open>The fraction \<open>p / q\<close> times \<open>2^k\<close>, as numerator and denominator.\<close>

definition scale2 :: "int \<Rightarrow> int \<Rightarrow> int \<Rightarrow> int \<times> int" where
  "scale2 p q k = (if 0 \<le> k then (p * 2 ^ nat k, q) else (p, q * 2 ^ nat (- k)))"

text \<open>For positive \<open>p\<close> and \<open>q\<close>, the exponent \<open>e\<close> with \<open>2^e \<le> p / q < 2^(e+1)\<close>:
  the difference \<open>d\<close> of the two bit lengths when \<open>2^d * q \<le> p\<close>, else one less.\<close>

definition binade :: "int \<Rightarrow> int \<Rightarrow> int" where
  "binade p q =
     (let d = int (bit_length p) - int (bit_length q);
          (a, b) = scale2 q 1 d
      in if a \<le> p * b then d else d - 1)"

text \<open>The integer nearest to \<open>n / d\<close> for positive \<open>d\<close>, a tie going to the even one.\<close>

definition round_half_even :: "int \<Rightarrow> int \<Rightarrow> int" where
  "round_half_even n d =
     (let f = n div d; r = n mod d
      in if 2 * r < d then f
         else if d < 2 * r then f + 1
         else if even f then f else f + 1)"

text \<open>
  Rounding to binary64. The magnitude \<open>p / q\<close> lies in the binade \<open>e\<close>, not below
  -1022 (below it the spacing stays \<open>2^-1074\<close>, the subnormal numbers); the
  significand \<open>k\<close> is the magnitude in units of \<open>2^(e-52)\<close>, rounded, at most
  \<open>2^53\<close>; the result is \<open>k * 2^(e-52)\<close>, infinite when that is \<open>2^1024\<close> or more.
\<close>

definition round_double :: "rat \<Rightarrow> jsnum" where
  "round_double r =
     (if r = 0 then Fin 0
      else
        let (p0, q) = quotient_of r;
            p = \<bar>p0\<bar>;
            e = max (binade p q) (- 1022);
            (n, d) = scale2 p q (52 - e);
            k = round_half_even n d;
            (a, b) = scale2 k 1 (e - 52)
        in if 1024 \<le> e \<or> (e = 1023 \<and> k = 2 ^ 53) then (if 0 < r then PosInf else NegInf)
           else Fin (of_int (if 0 < r then a else - a) / of_int b))"

text \<open>A decimal literal of the source, such as \<^verbatim>\<open>0.7\<close>: the double nearest to it.\<close>

definition js_lit :: "rat \<Rightarrow> jsnum" where
  "js_lit r = round_double r"

fun js_neg :: "jsnum \<Rightarrow> jsnum" where
  "js_neg (Fin a) = Fin (- a)"
| "js_neg PosInf = NegInf"
| "js_neg NegInf = PosInf"
| "js_neg NaN = NaN"

text \<open>The infinity with the sign of a non-zero rational.\<close>

definition inf_of_sign :: "rat \<Rightarrow> jsnum" where
  "inf_of_sign a = (if a = 0 then NaN else if 0 < a then PosInf else NegInf)"

fun js_add :: "jsnum \<Rightarrow> jsnum \<Rightarrow> jsnum" where
  "js_add (Fin a) (Fin b) = round_double (a + b)"
| "js_add (Fin a) PosInf = PosInf"
| "js_add (Fin a) NegInf = NegInf"
| "js_add PosInf (Fin b) = PosInf"
| "js_add PosInf PosInf = PosInf"
| "js_add PosInf NegInf = NaN"
| "js_add NegInf (Fin b) = NegInf"
| "js_add NegInf NegInf = NegInf"
| "js_add NegInf PosInf = NaN"
| "js_add NaN y = NaN"
| "js_add x NaN = NaN"

fun js_mul :: "jsnum \<Rightarrow> jsnum \<Rightarrow> jsnum" where
  "js_mul (Fin a) (Fin b) = round_double (a * b)"
| "js_mul (Fin a) PosInf = inf_of_sign a"
| "js_mul (Fin a) NegInf = inf_of_sign (- a)"
| "js_mul PosInf (Fin b) = inf_of_sign b"
| "js_mul NegInf (Fin b) = inf_of_sign (- b)"
| "js_mul PosInf PosInf = PosInf"
| "js_mul PosInf NegInf = NegInf"
| "js_mul NegInf PosInf = NegInf"
| "js_mul NegInf NegInf = PosInf"
| "js_mul NaN y = NaN"
| "js_mul x NaN = NaN"

text \<open>Division; a zero divisor is the positive zero (the player divides by 1000 only).\<close>

fun js_div :: "jsnum \<Rightarrow> jsnum \<Rightarrow> jsnum" where
  "js_div (Fin a) (Fin b) = (if b = 0 then inf_of_sign a else round_double (a / b))"
| "js_div (Fin a) PosInf = Fin 0"
| "js_div (Fin a) NegInf = Fin 0"
| "js_div PosInf (Fin b) = (if 0 \<le> b then PosInf else NegInf)"
| "js_div NegInf (Fin b) = (if 0 \<le> b then NegInf else PosInf)"
| "js_div PosInf PosInf = NaN"
| "js_div PosInf NegInf = NaN"
| "js_div NegInf PosInf = NaN"
| "js_div NegInf NegInf = NaN"
| "js_div NaN y = NaN"
| "js_div x NaN = NaN"

text \<open>Strict equality \<^verbatim>\<open>===\<close> on numbers: NaN equals nothing, itself included.\<close>

definition js_eq :: "jsnum \<Rightarrow> jsnum \<Rightarrow> bool" where
  "js_eq x y = (x \<noteq> NaN \<and> x = y)"

fun js_lt :: "jsnum \<Rightarrow> jsnum \<Rightarrow> bool" where
  "js_lt (Fin a) (Fin b) = (a < b)"
| "js_lt (Fin a) PosInf = True"
| "js_lt NegInf (Fin b) = True"
| "js_lt NegInf PosInf = True"
| "js_lt x y = False"

definition js_le :: "jsnum \<Rightarrow> jsnum \<Rightarrow> bool" where
  "js_le x y = (js_lt x y \<or> js_eq x y)"

definition js_ge :: "jsnum \<Rightarrow> jsnum \<Rightarrow> bool" where
  "js_ge x y = js_le y x"


definition truthy_str :: "string \<Rightarrow> bool" where
  "truthy_str s = (s \<noteq> [])"


subsection \<open>Strings and \<^verbatim>\<open>Number(string)\<close>\<close>

text \<open>
  A string is modelled by the bytes of its UTF-8 encoding. The conversion of a string
  to a number follows the grammar of the language (StringNumericLiteral): white space
  and line terminators are stripped at both ends, the empty string is 0, a literal is a
  signed decimal with optional fraction and exponent, \<^verbatim>\<open>Infinity\<close>, or an unsigned
  hexadecimal, octal or binary integer; anything else is NaN. The value of a literal is
  its exact mathematical value rounded to the nearest double.
\<close>

fun index_of :: "'a \<Rightarrow> 'a list \<Rightarrow> nat option" where
  "index_of x [] = None"
| "index_of x (y # ys) = (if x = y then Some 0 else map_option Suc (index_of x ys))"

definition digit_in :: "nat \<Rightarrow> char \<Rightarrow> nat option" where
  "digit_in b c =
     (case index_of c ''0123456789abcdef'' of
        Some d \<Rightarrow> if d < b then Some d else None
      | None \<Rightarrow>
          (case index_of c ''ABCDEF'' of
             Some d \<Rightarrow> if d + 10 < b then Some (d + 10) else None
           | None \<Rightarrow> None))"

fun radix_val :: "nat \<Rightarrow> int \<Rightarrow> string \<Rightarrow> int option" where
  "radix_val b acc [] = Some acc"
| "radix_val b acc (c # cs) =
     (case digit_in b c of
        None \<Rightarrow> None
      | Some d \<Rightarrow> radix_val b (int b * acc + int d) cs)"

definition radix_literal :: "nat \<Rightarrow> string \<Rightarrow> jsnum" where
  "radix_literal b ds =
     (if ds = [] then NaN
      else case radix_val b 0 ds of None \<Rightarrow> NaN | Some n \<Rightarrow> round_double (of_int n))"

definition is_digit :: "char \<Rightarrow> bool" where
  "is_digit c = (digit_in 10 c \<noteq> None)"

definition dec_val :: "string \<Rightarrow> int" where
  "dec_val ds = (case radix_val 10 0 ds of None \<Rightarrow> 0 | Some n \<Rightarrow> n)"

definition pow10 :: "int \<Rightarrow> rat" where
  "pow10 e = (if 0 \<le> e then 10 ^ nat e else 1 / 10 ^ nat (- e))"

definition exponent_part :: "string \<Rightarrow> int option" where
  "exponent_part s =
     (case s of
        [] \<Rightarrow> Some 0
      | c # r \<Rightarrow>
          if c = CHR ''e'' \<or> c = CHR ''E'' then
            (let (neg, ds) =
               (case r of
                  [] \<Rightarrow> (False, [])
                | x # r' \<Rightarrow>
                    if x = CHR ''-'' then (True, r')
                    else if x = CHR ''+'' then (False, r')
                    else (False, r))
             in if ds \<noteq> [] \<and> list_all is_digit ds
                then Some (if neg then - dec_val ds else dec_val ds)
                else None)
          else None)"

definition unsigned_decimal :: "string \<Rightarrow> jsnum" where
  "unsigned_decimal s =
     (if s = ''Infinity'' then PosInf
      else
        let ip = takeWhile is_digit s;
            r1 = dropWhile is_digit s;
            (fp, r2) =
              (case r1 of
                 [] \<Rightarrow> ([], [])
               | c # r \<Rightarrow>
                   if c = CHR ''.'' then (takeWhile is_digit r, dropWhile is_digit r)
                   else ([], r1))
        in if ip = [] \<and> fp = [] then NaN
           else case exponent_part r2 of
                  None \<Rightarrow> NaN
                | Some e \<Rightarrow>
                    round_double
                      ((of_int (dec_val ip) + of_int (dec_val fp) / 10 ^ length fp) * pow10 e))"

definition str_decimal :: "string \<Rightarrow> jsnum" where
  "str_decimal t =
     (case t of
        [] \<Rightarrow> NaN
      | c # r \<Rightarrow>
          if c = CHR ''-'' then js_neg (unsigned_decimal r)
          else if c = CHR ''+'' then unsigned_decimal r
          else unsigned_decimal t)"

text \<open>
  The white space and line terminators of the language, each as its UTF-8 bytes: tab,
  line feed, vertical tab, form feed, carriage return, space, U+00A0, U+1680, U+2000 to
  U+200A, U+2028, U+2029, U+202F, U+205F, U+3000 and U+FEFF.
\<close>

definition white_space :: "string list" where
  "white_space =
     [[CHR 0x09], [CHR 0x0A], [CHR 0x0B], [CHR 0x0C], [CHR 0x0D], [CHR 0x20],
      [CHR 0xC2, CHR 0xA0], [CHR 0xE1, CHR 0x9A, CHR 0x80],
      [CHR 0xE2, CHR 0x80, CHR 0x80], [CHR 0xE2, CHR 0x80, CHR 0x81],
      [CHR 0xE2, CHR 0x80, CHR 0x82], [CHR 0xE2, CHR 0x80, CHR 0x83],
      [CHR 0xE2, CHR 0x80, CHR 0x84], [CHR 0xE2, CHR 0x80, CHR 0x85],
      [CHR 0xE2, CHR 0x80, CHR 0x86], [CHR 0xE2, CHR 0x80, CHR 0x87],
      [CHR 0xE2, CHR 0x80, CHR 0x88], [CHR 0xE2, CHR 0x80, CHR 0x89],
      [CHR 0xE2, CHR 0x80, CHR 0x8A], [CHR 0xE2, CHR 0x80, CHR 0xA8],
      [CHR 0xE2, CHR 0x80, CHR 0xA9], [CHR 0xE2, CHR 0x80, CHR 0xAF],
      [CHR 0xE2, CHR 0x81, CHR 0x9F], [CHR 0xE3, CHR 0x80, CHR 0x80],
      [CHR 0xEF, CHR 0xBB, CHR 0xBF]]"

text \<open>Dropping, from the front of a string, every leading occurrence of one of the
  given words.\<close>

function strip_leading :: "string list \<Rightarrow> string \<Rightarrow> string" where
  "strip_leading ws s =
     (case find (\<lambda>w. w \<noteq> [] \<and> take (length w) s = w) ws of
        None \<Rightarrow> s
      | Some w \<Rightarrow> strip_leading ws (drop (length w) s))"
  by pat_completeness auto
termination
proof (relation "measure (\<lambda>(ws, s). length s)")
  show "wf (measure (\<lambda>(ws, s). length s))" by simp
next
  fix ws :: "string list" and s w :: string
  assume "find (\<lambda>w. w \<noteq> [] \<and> take (length w) s = w) ws = Some w"
  then have w: "w \<noteq> []" "take (length w) s = w" by (auto simp add: find_Some_iff)
  from w(2) have "length (take (length w) s) = length w" by simp
  then have "length w \<le> length s" by simp
  moreover from w(1) have "0 < length w" by (cases w) simp_all
  ultimately have "length s - length w < length s" by arith
  then show "((ws, drop (length w) s), (ws, s)) \<in> measure (\<lambda>(ws, s). length s)" by simp
qed

text \<open>Stripping at the end is stripping the reversed words from the reversed string;
  a string of well-formed UTF-8 ends with a white space character exactly when it ends
  with the bytes of one.\<close>

definition trim :: "string \<Rightarrow> string" where
  "trim s = rev (strip_leading (map rev white_space) (rev (strip_leading white_space s)))"

definition Number_str :: "string \<Rightarrow> jsnum" where
  "Number_str s =
     (let t = trim s in
      if t = [] then Fin 0
      else case t of
             c0 # c1 # r \<Rightarrow>
               if c0 = CHR ''0'' \<and> (c1 = CHR ''x'' \<or> c1 = CHR ''X'') then radix_literal 16 r
               else if c0 = CHR ''0'' \<and> (c1 = CHR ''o'' \<or> c1 = CHR ''O'') then radix_literal 8 r
               else if c0 = CHR ''0'' \<and> (c1 = CHR ''b'' \<or> c1 = CHR ''B'') then radix_literal 2 r
               else str_decimal t
           | _ \<Rightarrow> str_decimal t)"

subsection \<open>\<^verbatim>\<open>String.prototype.split\<close> on a one-character separator\<close>

text \<open>The result always has at least one segment; the second case of the inner
  \<^verbatim>\<open>case\<close> is never reached.\<close>

fun split_on :: "char \<Rightarrow> string \<Rightarrow> string list" where
  "split_on c [] = [[]]"
| "split_on c (x # xs) =
     (if x = c then [] # split_on c xs
      else case split_on c xs of y # ys \<Rightarrow> (x # y) # ys | [] \<Rightarrow> [[x]])"

text \<open>Array destructuring: an index past the end reads \<^verbatim>\<open>undefined\<close>.\<close>

fun nth_opt :: "'a list \<Rightarrow> nat \<Rightarrow> 'a option" where
  "nth_opt [] n = None"
| "nth_opt (x # xs) 0 = Some x"
| "nth_opt (x # xs) (Suc n) = nth_opt xs n"

text \<open>A number read from a destructured array: \<^verbatim>\<open>undefined\<close> is NaN in arithmetic.\<close>

definition num_or_undefined :: "jsnum option \<Rightarrow> jsnum" where
  "num_or_undefined v = (case v of None \<Rightarrow> NaN | Some x \<Rightarrow> x)"

section \<open>Time codec\<close>

text \<open>
  \<^verbatim>\<open>parseTimeToSeconds\<close>: the string is split at commas into \<^verbatim>\<open>[time, milliseconds]\<close>,
  \<^verbatim>\<open>time\<close> is split at colons and each part converted with \<^verbatim>\<open>Number\<close>;
  \<^verbatim>\<open>ms = Number(milliseconds || 0)\<close>. The result is
  \<^verbatim>\<open>hours * 3600 + minutes * 60 + seconds + ms / 1000\<close> in double arithmetic.
\<close>

definition parseTimeToSeconds :: "string \<Rightarrow> jsnum" where
  "parseTimeToSeconds timeString =
     (let parts = split_on CHR '','' timeString;
          time = (case nth_opt parts 0 of Some t \<Rightarrow> t | None \<Rightarrow> []);
          milliseconds = nth_opt parts 1;
          nums = map Number_str (split_on CHR '':'' time);
          hours = num_or_undefined (nth_opt nums 0);
          minutes = num_or_undefined (nth_opt nums 1);
          seconds = num_or_undefined (nth_opt nums 2);
          ms = (case milliseconds of
                  None \<Rightarrow> Fin 0
                | Some m \<Rightarrow> if truthy_str m then Number_str m else Fin 0)
      in js_add (js_add (js_add (js_mul hours (Fin 3600)) (js_mul minutes (Fin 60))) seconds)
           (js_div ms (Fin 1000)))"

section \<open>Subtitle synchronizer\<close>

record Subtitle =
  sub_end :: string
  seq :: jsnum
  sub_text :: string
  sub_start :: string

record ProcessedSubtitle = Subtitle +
  startTime :: jsnum
  endTime :: jsnum

text \<open>\<^verbatim>\<open>processedSubtitles\<close>: every line keeps its fields and gains the two times in seconds.\<close>

definition processSubtitle :: "Subtitle \<Rightarrow> ProcessedSubtitle" where
  "processSubtitle sub =
     \<lparr>sub_end = sub_end sub, seq = seq sub, sub_text = sub_text sub, sub_start = sub_start sub,
      startTime = parseTimeToSeconds (sub_start sub),
      endTime = parseTimeToSeconds (sub_end sub)\<rparr>"

definition processedSubtitles :: "Subtitle list \<Rightarrow> ProcessedSubtitle list" where
  "processedSubtitles subs = map processSubtitle subs"

text \<open>The predicate handed to \<^verbatim>\<open>find\<close>: the line's closed interval contains the time.\<close>

definition covers :: "jsnum \<Rightarrow> ProcessedSubtitle \<Rightarrow> bool" where
  "covers currentTime sub = (js_ge currentTime (startTime sub) \<and> js_le currentTime (endTime sub))"

text \<open>The value the subtitle effect stores with \<^verbatim>\<open>setCurrentSubtitle\<close>.\<close>

definition selectSubtitle :: "jsnum \<Rightarrow> ProcessedSubtitle list \<Rightarrow> string" where
  "selectSubtitle currentTime subs =
     (if length subs = 0 then []
      else case find (covers currentTime) subs of
             None \<Rightarrow> []
           | Some currentSub \<Rightarrow>
               if truthy_str (sub_text currentSub) then sub_text currentSub else [])"

section \<open>The player\<close>

subsection \<open>Data\<close>

text \<open>A \<^verbatim>\<open>Source\<close>; its \<^verbatim>\<open>type\<close> field has the single value \<^verbatim>\<open>application/dash+xml\<close>.\<close>

record Source =
  src :: string

record FormatItem =
  item_id :: jsnum
  new_description :: string
  display_desc :: "string option"
  codecs :: "string option"

record Quality =
  index :: jsnum
  label :: string
  quality_id :: jsnum
  needLogin :: bool

text \<open>The engine's representation; the player reads only its \<^verbatim>\<open>id\<close>, a string.\<close>

record Representation =
  rep_id :: string

text \<open>The strings the component shows: the automatic label (the two ideographs U+81EA
  U+52A8) and the text around the target label of the switching message, as UTF-8.\<close>

definition auto_label :: string where
  "auto_label = [CHR 0xE8, CHR 0x87, CHR 0xAA, CHR 0xE5, CHR 0x8A, CHR 0xA8]"

definition switching_message :: "string \<Rightarrow> string" where
  "switching_message target =
     [CHR 0xE6, CHR 0xAD, CHR 0xA3, CHR 0xE5, CHR 0x9C, CHR 0xA8, CHR 0xE5, CHR 0x88, CHR 0x87,
      CHR 0xE6, CHR 0x8D, CHR 0xA2, CHR 0xE5, CHR 0x88, CHR 0xB0, CHR 0x20]
     @ target @
     [CHR 0x2C, CHR 0x20, CHR 0xE8, CHR 0xAF, CHR 0xB7, CHR 0xE7, CHR 0xA8, CHR 0x8D,
      CHR 0xE7, CHR 0xAD, CHR 0x89, CHR 0x2E, CHR 0x2E, CHR 0x2E]"

text \<open>The errors handed to the host's \<^verbatim>\<open>onError\<close>: video element not initialised
  (\<^verbatim>\<open>initPlayer\<close>), player not initialised and empty source address (\<^verbatim>\<open>updateSrc\<close>).\<close>

datatype player_error = VideoElementNotInitialised | PlayerNotInitialised | EmptySourceAddress

text \<open>An exception raised by the engine, and the lines written to the console.\<close>

datatype exn = EngineException

datatype log_entry = SwitchQualityFailed | PlayAfterSwitchFailed | DestroyPlayerFailed

text \<open>The video element: \<^verbatim>\<open>play()\<close> returns a promise that the element may reject.\<close>

record video =
  muted :: bool
  el_volume :: jsnum
  paused :: bool
  playRejects :: bool
  playCalls :: nat

subsection \<open>The engine\<close>

text \<open>
  The streaming engine is an external library. The model keeps the commands it has
  received, the handlers registered on it, its two automatic-bitrate settings, what its
  two queries return, and whether a representation switch or a reset raises.
\<close>

datatype engine_event = ERROR | PLAYBACK_ENDED | STREAM_INITIALIZED | QUALITY_CHANGE_RENDERED

text \<open>
  A handler registered on the engine is a closure of the render in which
  \<^verbatim>\<open>initPlayer\<close> ran. The handlers read two values of that render's state,
  \<^verbatim>\<open>isLoggedIn\<close> and \<^verbatim>\<open>currentQualityIndex\<close>, and they go on reading those for as
  long as the engine lives: what later renders hold is invisible to them.
\<close>

record closure =
  seen_isLoggedIn :: bool
  seen_currentQualityIndex :: jsnum

datatype engine_call =
    UpdateSettings "bool option" "bool option"
  | On engine_event
  | Initialize string bool
  | AttachSource string
  | SetRepresentationForTypeByIndex jsnum
  | Reset

record engine =
  calls :: "engine_call list"
  listeners :: "(engine_event \<times> closure) list"
  autoSwitchVideo :: bool
  autoSwitchAudio :: bool
  videoRepresentations :: "Representation list"
  currentRepresentation :: "Representation option"
  switchThrows :: bool
  resetThrows :: bool

text \<open>\<^verbatim>\<open>updateSettings({streaming: {abr: {autoSwitchBitrate: {video, audio}}}})\<close>: a
  setting that is not named keeps its value.\<close>

definition updateSettings :: "bool option \<Rightarrow> bool option \<Rightarrow> engine \<Rightarrow> engine" where
  "updateSettings v a e =
     e\<lparr>calls := calls e @ [UpdateSettings v a],
       autoSwitchVideo := (case v of None \<Rightarrow> autoSwitchVideo e | Some b \<Rightarrow> b),
       autoSwitchAudio := (case a of None \<Rightarrow> autoSwitchAudio e | Some b \<Rightarrow> b)\<rparr>"

definition on :: "engine_event \<Rightarrow> closure \<Rightarrow> engine \<Rightarrow> engine" where
  "on ev handler e = e\<lparr>calls := calls e @ [On ev], listeners := listeners e @ [(ev, handler)]\<rparr>"

definition initialize :: "string \<Rightarrow> bool \<Rightarrow> engine \<Rightarrow> engine" where
  "initialize source auto e = e\<lparr>calls := calls e @ [Initialize source auto]\<rparr>"

definition attachSource :: "string \<Rightarrow> engine \<Rightarrow> engine" where
  "attachSource source e = e\<lparr>calls := calls e @ [AttachSource source]\<rparr>"

definition setRepresentationForTypeByIndex :: "jsnum \<Rightarrow> engine \<Rightarrow> exn + engine" where
  "setRepresentationForTypeByIndex i e =
     (if switchThrows e then Inl EngineException
      else Inr (e\<lparr>calls := calls e @ [SetRepresentationForTypeByIndex i]\<rparr>))"

definition reset :: "engine \<Rightarrow> exn + engine" where
  "reset e =
     (if resetThrows e then Inl EngineException
      else Inr (e\<lparr>calls := calls e @ [Reset]\<rparr>))"

subsection \<open>Exceptions\<close>

text \<open>A computation returns \<open>Inl\<close> when it throws. \<open>and_then\<close> is sequencing,
  \<open>try_catch\<close> the \<^verbatim>\<open>try { } catch (err) { }\<close> statement.\<close>

definition and_then :: "exn + 'a \<Rightarrow> ('a \<Rightarrow> exn + 'b) \<Rightarrow> exn + 'b" where
  "and_then m f = (case m of Inl err \<Rightarrow> Inl err | Inr v \<Rightarrow> f v)"

definition try_catch :: "exn + 'a \<Rightarrow> (exn \<Rightarrow> exn + 'a) \<Rightarrow> exn + 'a" where
  "try_catch body handler = (case body of Inl err \<Rightarrow> handler err | Inr v \<Rightarrow> Inr v)"

subsection \<open>Component state\<close>

text \<open>What a timer does when it fires: the two closures handed to \<^verbatim>\<open>setTimeout\<close>.
  The second captured \<^verbatim>\<open>isPlaying\<close> when it was created.\<close>

datatype timer_action = ClearSwitchMessage | HideControlsIf bool

text \<open>
  One record holds the props, the React state, the refs and the browser's side of the
  component: the object URLs that are created and not revoked, the pending timers
  (handle, delay, action), the console, and the calls made to the host's callbacks.
  \<open>MediaPlayer_create\<close> is the instance the engine's factory returns.
  Timer handles are positive in a browser, so a handle that is held is truthy exactly
  when it is not 0.
\<close>

record player =
  url :: "string option"
  autoPlay :: bool
  subtitles :: "Subtitle list"
  onError :: bool
  onLoaded :: bool
  options :: Source
  isPlaying :: bool
  currentTime :: jsnum
  volume :: jsnum
  isMuted :: bool
  showControls :: bool
  formatListTwo :: "FormatItem list"
  availableQualities :: "Quality list"
  currentQualityIndex :: jsnum
  currentQuality :: string
  currentAutoQuality :: string
  isLoggedIn :: bool
  switchMessage :: string
  currentSubtitle :: string
  videoPlayerRef :: "video option"
  playerRef :: "engine option"
  formatListRef :: "FormatItem list"
  hideControlsTimer :: "nat option"
  previousBlobUrl :: "string option"
  objectURLs :: "string list"
  timers :: "(nat \<times> nat \<times> timer_action) list"
  nextTimer :: nat
  console :: "log_entry list"
  onErrorCalls :: "player_error list"
  onLoadedCalls :: nat
  MediaPlayer_create :: engine

text \<open>
  A handler is a closure of one render: it reads props and React state from the render
  that created it (the argument \<open>c\<close>), and refs and the browser from the present
  (the argument \<open>s\<close>); a state setter writes to \<open>s\<close> and is seen by the next render.
\<close>

text \<open>What a handler made in the render \<open>c\<close> keeps of it, and the render a kept
  closure stands for when its handler runs in the state \<open>s\<close>.\<close>

definition capture :: "player \<Rightarrow> closure" where
  "capture c =
     \<lparr>seen_isLoggedIn = isLoggedIn c, seen_currentQualityIndex = currentQualityIndex c\<rparr>"


text \<open>The effect that runs when the playback time or the subtitles have changed.\<close>

definition subtitleEffect :: "player \<Rightarrow> player \<Rightarrow> player" where
  "subtitleEffect c s =
     s\<lparr>currentSubtitle := selectSubtitle (currentTime c) (processedSubtitles (subtitles c))\<rparr>"

subsection \<open>Host callbacks, timers, object URLs\<close>

text \<open>\<^verbatim>\<open>onError?.(err)\<close> and \<^verbatim>\<open>onLoaded?.(player)\<close>: nothing happens when the host gave no
  callback.\<close>

definition call_onError :: "player \<Rightarrow> player_error \<Rightarrow> player \<Rightarrow> player" where
  "call_onError c err s = (if onError c then s\<lparr>onErrorCalls := onErrorCalls s @ [err]\<rparr> else s)"

definition call_onLoaded :: "player \<Rightarrow> player \<Rightarrow> player" where
  "call_onLoaded c s = (if onLoaded c then s\<lparr>onLoadedCalls := onLoadedCalls s + 1\<rparr> else s)"

text \<open>\<^verbatim>\<open>setTimeout\<close> returns the new handle with the state; \<^verbatim>\<open>clearTimeout\<close> drops the
  timer; a timer that fires runs its closure and is gone.\<close>

definition setTimeout :: "timer_action \<Rightarrow> nat \<Rightarrow> player \<Rightarrow> nat \<times> player" where
  "setTimeout act delay s =
     (nextTimer s, s\<lparr>timers := timers s @ [(nextTimer s, delay, act)], nextTimer := nextTimer s + 1\<rparr>)"

definition clearTimeout :: "nat \<Rightarrow> player \<Rightarrow> player" where
  "clearTimeout h s = s\<lparr>timers := filter (\<lambda>t. fst t \<noteq> h) (timers s)\<rparr>"

definition run_action :: "timer_action \<Rightarrow> player \<Rightarrow> player" where
  "run_action act s =
     (case act of
        ClearSwitchMessage \<Rightarrow> s\<lparr>switchMessage := []\<rparr>
      | HideControlsIf playing \<Rightarrow> if playing then s\<lparr>showControls := False\<rparr> else s)"

definition fireTimer :: "nat \<Rightarrow> player \<Rightarrow> player" where
  "fireTimer h s =
     (case find (\<lambda>t. fst t = h) (timers s) of
        None \<Rightarrow> s
      | Some t \<Rightarrow> run_action (snd (snd t)) (clearTimeout h s))"

text \<open>\<^verbatim>\<open>URL.createObjectURL\<close> hands out the URL \<open>u\<close> the browser chose;
  \<^verbatim>\<open>URL.revokeObjectURL\<close> releases it.\<close>

definition createObjectURL :: "string \<Rightarrow> player \<Rightarrow> player" where
  "createObjectURL u s = s\<lparr>objectURLs := objectURLs s @ [u]\<rparr>"

definition revokeObjectURL :: "string \<Rightarrow> player \<Rightarrow> player" where
  "revokeObjectURL u s = s\<lparr>objectURLs := removeAll u (objectURLs s)\<rparr>"

subsection \<open>Manifest fetcher\<close>

text \<open>The body of the response: \<^verbatim>\<open>data.data.unifiedMpd\<close> and \<^verbatim>\<open>data.data.formatList\<close>.\<close>

record manifest =
  unifiedMpd :: string
  formatList :: "FormatItem list"

text \<open>The callback of \<^verbatim>\<open>refetchManifest\<close> that runs when the response has arrived;
  \<open>blobUrl\<close> is what \<^verbatim>\<open>URL.createObjectURL\<close> returned for the new blob.\<close>

definition manifestFetched :: "manifest \<Rightarrow> string \<Rightarrow> player \<Rightarrow> player" where
  "manifestFetched data blobUrl s =
     (createObjectURL blobUrl (s\<lparr>formatListTwo := formatList data\<rparr>))\<lparr>options := \<lparr>src = blobUrl\<rparr>\<rparr>"

subsection \<open>Resource lifecycle\<close>

definition revokePreviousBlobUrl :: "player \<Rightarrow> player" where
  "revokePreviousBlobUrl s =
     (case previousBlobUrl s of
        None \<Rightarrow> s
      | Some u \<Rightarrow>
          if truthy_str u then (revokeObjectURL u s)\<lparr>previousBlobUrl := None\<rparr> else s)"

definition destroyPlayer :: "player \<Rightarrow> exn + player" where
  "destroyPlayer s =
     and_then
       (case playerRef s of
          None \<Rightarrow> Inr s
        | Some e \<Rightarrow>
            try_catch
              (and_then (reset e) (\<lambda>e'. Inr (s\<lparr>playerRef := None\<rparr>)))
              (\<lambda>err. Inr (s\<lparr>console := console s @ [DestroyPlayerFailed]\<rparr>)))
       (\<lambda>s1.
          let s2 = (case hideControlsTimer s1 of
                      None \<Rightarrow> s1
                    | Some h \<Rightarrow>
                        if h \<noteq> 0 then (clearTimeout h s1)\<lparr>hideControlsTimer := None\<rparr> else s1)
          in Inr (revokePreviousBlobUrl s2))"

subsection \<open>Quality reconciler\<close>


definition updateQualityList :: "player \<Rightarrow> player \<Rightarrow> player" where
  "updateQualityList c s =
     (case playerRef s of
        None \<Rightarrow> s
      | Some e \<Rightarrow>
          if \<not> js_eq (currentQualityIndex c) (Fin (- 1)) then s
          else if length (videoRepresentations e) = 0 then s
          else
            (case currentRepresentation e of
               None \<Rightarrow> s\<lparr>currentQuality := auto_label, currentAutoQuality := []\<rparr>
             | Some currentRep \<Rightarrow>
                   (case find (\<lambda>quality. js_eq (item_id quality) (Number_str (rep_id currentRep)))
                           (formatListRef s) of
                      Some matchingQuality \<Rightarrow>
                        (let autoDesc =
                               (case find (\<lambda>item. js_eq (item_id item) (item_id matchingQuality))
                                       (formatListRef s) of
                                  None \<Rightarrow> None
                                | Some formatItem \<Rightarrow> display_desc formatItem);
                             s1 = (case autoDesc of
                                     None \<Rightarrow> s
                                   | Some d \<Rightarrow>
                                       if truthy_str d then s\<lparr>currentAutoQuality := d\<rparr> else s)
                         in s1\<lparr>currentQuality := auto_label\<rparr>)
                    | None \<Rightarrow> s\<lparr>currentQuality := auto_label, currentAutoQuality := []\<rparr>)))"




text \<open>\<^verbatim>\<open>videoPlayerRef.current.play().catch(...)\<close>: a rejected promise is a console warning.\<close>

definition play :: "player \<Rightarrow> player" where
  "play s =
     (case videoPlayerRef s of
        None \<Rightarrow> s
      | Some v \<Rightarrow>
          if playRejects v
          then s\<lparr>videoPlayerRef := Some (v\<lparr>playCalls := playCalls v + 1\<rparr>),
                 console := console s @ [PlayAfterSwitchFailed]\<rparr>
          else s\<lparr>videoPlayerRef := Some (v\<lparr>paused := False, playCalls := playCalls v + 1\<rparr>)\<rparr>)"

definition changeQuality :: "player \<Rightarrow> jsnum \<Rightarrow> player \<Rightarrow> exn + player" where
  "changeQuality c i s =
     (case playerRef s of
        None \<Rightarrow> Inr s
      | Some e \<Rightarrow>
          if length (availableQualities c) = 0 then Inr s
          else
            let wasPlaying = isPlaying c;
                resume = (\<lambda>s'. Inr (if wasPlaying \<and> videoPlayerRef s' \<noteq> None then play s' else s'))
            in if js_eq i (Fin (- 1)) then
                 resume
                   (updateQualityList c
                      (s\<lparr>playerRef := Some (updateSettings (Some True) None e),
                         currentQualityIndex := Fin (- 1),
                         currentQuality := auto_label\<rparr>))
               else
                 (case find (\<lambda>q. js_eq (index q) i) (availableQualities c) of
                    None \<Rightarrow> Inr s
                  | Some targetQuality \<Rightarrow>
                      let s1 = snd (setTimeout ClearSwitchMessage 2000
                                     (s\<lparr>switchMessage := switching_message (label targetQuality)\<rparr>));
                          e1 = updateSettings (Some False) None e
                      in and_then
                           (try_catch
                              (and_then (setRepresentationForTypeByIndex i e1)
                                 (\<lambda>e2. Inr (s1\<lparr>playerRef := Some e2,
                                               currentQualityIndex := i,
                                               currentQuality := label targetQuality,
                                               currentAutoQuality := []\<rparr>)))
                              (\<lambda>err. Inr (s1\<lparr>console := console s1 @ [SwitchQualityFailed],
                                              playerRef := Some (updateSettings (Some True) None e1),
                                              currentQualityIndex := Fin (- 1),
                                              currentQuality := auto_label,
                                              switchMessage := []\<rparr>)))
                           resume))"

subsection \<open>Playback engine adapter\<close>

definition initPlayer :: "player \<Rightarrow> player \<Rightarrow> exn + player" where
  "initPlayer c s =
     (case videoPlayerRef s of
        None \<Rightarrow> Inr (call_onError c VideoElementNotInitialised s)
      | Some v \<Rightarrow>
          and_then (if playerRef s \<noteq> None then destroyPlayer s else Inr s)
            (\<lambda>s1.
               let e = initialize (src (options c)) (autoPlay c)
                         (on QUALITY_CHANGE_RENDERED (capture c)
                           (on STREAM_INITIALIZED (capture c)
                             (on PLAYBACK_ENDED (capture c)
                               (on ERROR (capture c)
                                 (updateSettings (Some True) (Some True) (MediaPlayer_create s1))))))
               in Inr (call_onLoaded c (s1\<lparr>playerRef := Some e\<rparr>))))"

definition updateSrc :: "player \<Rightarrow> Source \<Rightarrow> player \<Rightarrow> exn + player" where
  "updateSrc c newSource s =
     and_then (if playerRef s = None then initPlayer c s else Inr s)
       (\<lambda>s1.
          case playerRef s1 of
            None \<Rightarrow> Inr (call_onError c PlayerNotInitialised s1)
          | Some e \<Rightarrow>
              if \<not> truthy_str (src newSource) then Inr (call_onError c EmptySourceAddress s1)
              else Inr ((revokePreviousBlobUrl s1)\<lparr>playerRef := Some (attachSource (src newSource) e)\<rparr>))"

text \<open>The two effects that run after a render in which \<^verbatim>\<open>formatListTwo\<close> and
  \<^verbatim>\<open>options\<close> have changed, in the order the component declares them; the render is
  the state itself.\<close>

definition formatListEffect :: "player \<Rightarrow> player" where
  "formatListEffect s = s\<lparr>formatListRef := formatListTwo s\<rparr>"

definition optionsEffect :: "player \<Rightarrow> exn + player" where
  "optionsEffect s = (if truthy_str (src (options s)) then updateSrc s (options s) s else Inr s)"

text \<open>A response arrives, the component renders and its effects run.\<close>

definition manifestArrives :: "manifest \<Rightarrow> string \<Rightarrow> player \<Rightarrow> exn + player" where
  "manifestArrives data blobUrl s = optionsEffect (formatListEffect (manifestFetched data blobUrl s))"


subsection \<open>Controls\<close>

definition toggleMute :: "player \<Rightarrow> player \<Rightarrow> player" where
  "toggleMute c s =
     (case videoPlayerRef s of
        None \<Rightarrow> s
      | Some v \<Rightarrow>
          if isMuted c then
            (let s1 = s\<lparr>videoPlayerRef := Some (v\<lparr>muted := False\<rparr>), isMuted := False\<rparr>
             in if js_eq (volume c) (Fin 0)
                then s1\<lparr>volume := Fin (1 / 2),
                        videoPlayerRef := Some (v\<lparr>muted := False, el_volume := Fin (1 / 2)\<rparr>)\<rparr>
                else s1)
          else s\<lparr>videoPlayerRef := Some (v\<lparr>muted := True\<rparr>), isMuted := True\<rparr>)"


subsection \<open>The component when it has mounted\<close>

text \<open>The initial values of the state and the refs, with a video element in the
  page and no request answered yet.\<close>

definition fresh_engine :: engine where
  "fresh_engine =
     \<lparr>calls = [], listeners = [], autoSwitchVideo = True, autoSwitchAudio = True,
      videoRepresentations = [],
      currentRepresentation = None, switchThrows = False, resetThrows = False\<rparr>"

definition mounted_video :: video where
  "mounted_video =
     \<lparr>muted = False, el_volume = js_lit (7 / 10), paused = True, playRejects = False,
      playCalls = 0\<rparr>"

definition mounted :: player where
  "mounted =
     \<lparr>url = Some ''https://www.bilibili.com/video/BV1'', autoPlay = False, subtitles = [],
      onError = True, onLoaded = True,
      options = \<lparr>src = []\<rparr>, isPlaying = False, currentTime = Fin 0, volume = js_lit (7 / 10),
      isMuted = False, showControls = True, formatListTwo = [], availableQualities = [],
      currentQualityIndex = Fin (- 1), currentQuality = auto_label, currentAutoQuality = [],
      isLoggedIn = False, switchMessage = [], currentSubtitle = [],
      videoPlayerRef = Some mounted_video, playerRef = None, formatListRef = [],
      hideControlsTimer = None, previousBlobUrl = None,
      objectURLs = [], timers = [], nextTimer = 1, console = [],
      onErrorCalls = [], onLoadedCalls = 0, MediaPlayer_create = fresh_engine\<rparr>"

subsection \<open>States and inputs used as examples\<close>

text \<open>Two subtitle lines, over the seconds 1 to 2 and 3 to 4, as the host gives them
  and as the component keeps them.\<close>

definition two_raw_lines :: "Subtitle list" where
  "two_raw_lines =
     [\<lparr>sub_end = ''00:00:02,000'', seq = Fin 1, sub_text = ''first'', sub_start = ''00:00:01,000''\<rparr>,
      \<lparr>sub_end = ''00:00:04,000'', seq = Fin 2, sub_text = ''second'', sub_start = ''00:00:03,000''\<rparr>]"

definition two_lines :: "ProcessedSubtitle list" where
  "two_lines =
     [\<lparr>sub_end = ''00:00:02,000'', seq = Fin 1, sub_text = ''first'', sub_start = ''00:00:01,000'',
       startTime = Fin 1, endTime = Fin 2\<rparr>,
      \<lparr>sub_end = ''00:00:04,000'', seq = Fin 2, sub_text = ''second'', sub_start = ''00:00:03,000'',
       startTime = Fin 3, endTime = Fin 4\<rparr>]"

text \<open>The mounted component with these subtitles, three seconds into the video.\<close>

definition at_second_3 :: player where
  "at_second_3 = mounted\<lparr>subtitles := two_raw_lines, currentTime := Fin 3\<rparr>"


text \<open>The mounted component, muted at volume 0, and without its video element.\<close>

definition muted_at_zero :: player where
  "muted_at_zero = mounted\<lparr>isMuted := True, volume := Fin 0\<rparr>"

definition no_element :: player where
  "no_element = mounted\<lparr>videoPlayerRef := None\<rparr>"

text \<open>What the handlers keep when \<^verbatim>\<open>initPlayer\<close> runs in the mounted component's
  render: not logged in, automatic quality.\<close>

definition at_mount :: closure where
  "at_mount = \<lparr>seen_isLoggedIn = False, seen_currentQualityIndex = Fin (- 1)\<rparr>"

text \<open>The engine that the mounted component created for the source \<^verbatim>\<open>blob:1\<close>, when it
  streams three video representations, the third with id 5; and a format list of three
  items: one with a codec, two without.\<close>

definition streaming_engine :: engine where
  "streaming_engine =
     \<lparr>calls = [UpdateSettings (Some True) (Some True), On ERROR, On PLAYBACK_ENDED,
        On STREAM_INITIALIZED, On QUALITY_CHANGE_RENDERED, Initialize ''blob:1'' False,
        AttachSource ''blob:1''],
      listeners = [(ERROR, at_mount), (PLAYBACK_ENDED, at_mount), (STREAM_INITIALIZED, at_mount),
        (QUALITY_CHANGE_RENDERED, at_mount)],
      autoSwitchVideo = True, autoSwitchAudio = True,
      videoRepresentations = [\<lparr>rep_id = ''16''\<rparr>, \<lparr>rep_id = ''32''\<rparr>, \<lparr>rep_id = ''5''\<rparr>],
      currentRepresentation = Some \<lparr>rep_id = ''5''\<rparr>,
      switchThrows = False, resetThrows = False\<rparr>"

definition item5 :: FormatItem where
  "item5 = \<lparr>item_id = Fin 5, new_description = ''480P'', display_desc = Some ''480P clear'',
            codecs = Some ''avc1.64001F''\<rparr>"

definition item50 :: FormatItem where
  "item50 = \<lparr>item_id = Fin 50, new_description = ''720P'', display_desc = None, codecs = None\<rparr>"

definition item150 :: FormatItem where
  "item150 = \<lparr>item_id = Fin 150, new_description = ''4K'', display_desc = None, codecs = None\<rparr>"

definition quality5 :: Quality where
  "quality5 = \<lparr>index = Fin 2, label = ''480P'', quality_id = Fin 5, needLogin = False\<rparr>"

definition quality50 :: Quality where
  "quality50 = \<lparr>index = Fin 50, label = ''720P'', quality_id = Fin 50, needLogin = True\<rparr>"

text \<open>The component while it plays that stream, and the same with an engine whose
  representation switch raises, with a video element that rejects \<^verbatim>\<open>play()\<close>, and
  while paused.\<close>

definition watching :: player where
  "watching =
     mounted\<lparr>options := \<lparr>src = ''blob:1''\<rparr>, objectURLs := [''blob:1''], onLoadedCalls := 1,
       playerRef := Some streaming_engine, formatListRef := [item5, item50, item150],
       formatListTwo := [item5, item50, item150], availableQualities := [quality5, quality50],
       isPlaying := True, videoPlayerRef := Some (mounted_video\<lparr>paused := False\<rparr>)\<rparr>"

definition watching_faulty :: player where
  "watching_faulty = watching\<lparr>playerRef := Some (streaming_engine\<lparr>switchThrows := True\<rparr>)\<rparr>"

definition watching_rejecting :: player where
  "watching_rejecting = watching\<lparr>videoPlayerRef := Some (mounted_video\<lparr>playRejects := True\<rparr>)\<rparr>"

definition watching_paused :: player where
  "watching_paused = watching\<lparr>isPlaying := False, videoPlayerRef := Some mounted_video\<rparr>"

text \<open>The engine the mounted component creates on its first \<^verbatim>\<open>updateSrc\<close>, as it is
  after \<^verbatim>\<open>initPlayer\<close> with an empty \<^verbatim>\<open>options.src\<close>.\<close>

definition lazily_created :: engine where
  "lazily_created =
     fresh_engine\<lparr>calls := [UpdateSettings (Some True) (Some True), On ERROR, On PLAYBACK_ENDED,
         On STREAM_INITIALIZED, On QUALITY_CHANGE_RENDERED, Initialize [] False],
       listeners := [(ERROR, at_mount), (PLAYBACK_ENDED, at_mount), (STREAM_INITIALIZED, at_mount),
         (QUALITY_CHANGE_RENDERED, at_mount)]\<rparr>"






text \<open>The body of a manifest response.\<close>

definition manifest1 :: manifest where
  "manifest1 = \<lparr>unifiedMpd = ''<MPD/>'', formatList = [item5, item50, item150]\<rparr>"

text \<open>A sequence of responses, each with the object URL the browser made for it,
  arriving one after the other.\<close>

fun manifestsArrive :: "(manifest \<times> string) list \<Rightarrow> player \<Rightarrow> exn + player" where
  "manifestsArrive [] s = Inr s"
| "manifestsArrive ((data, blobUrl) # rest) s =
     and_then (manifestArrives data blobUrl s) (manifestsArrive rest)"






text \<open>The watching component when its video element is gone and the engine is not,
  and the component without element whose host gave no error callback.\<close>

definition element_gone :: player where
  "element_gone = watching\<lparr>videoPlayerRef := None\<rparr>"

definition silent_no_element :: player where
  "silent_no_element = no_element\<lparr>onError := False\<rparr>"

section \<open>Properties\<close>

subsection \<open>Lists\<close>

lemma find_first:
  "i < length xs \<Longrightarrow> P (xs ! i) \<Longrightarrow> (\<forall>j<i. \<not> P (xs ! j)) \<Longrightarrow> find P xs = Some (xs ! i)"
proof (induction xs arbitrary: i)
  case Nil
  then show ?case by simp
next
  case (Cons x xs)
  show ?case
  proof (cases i)
    case 0
    with Cons.prems show ?thesis by simp
  next
    case (Suc k)
    with Cons.prems have "\<not> P x" by auto
    moreover have "\<forall>j<k. \<not> P (xs ! j)"
    proof (intro allI impI)
      fix j assume "j < k"
      then have "Suc j < i" using Suc by simp
      with Cons.prems(3) have "\<not> P ((x # xs) ! Suc j)" by blast
      then show "\<not> P (xs ! j)" by simp
    qed
    then have "find P xs = Some (xs ! k)"
      using Cons.IH [of k] Cons.prems(1,2) Suc by simp
    ultimately show ?thesis using Suc by simp
  qed
qed

lemma find_none: "(\<forall>x\<in>set xs. \<not> P x) \<Longrightarrow> find P xs = None"
  by (simp add: find_None_iff)

subsection \<open>The example states\<close>





text \<open>The example states satisfy the guards of an explicit switch to index 2.\<close>

lemma watching_target:
  "availableQualities watching \<noteq> [] \<and> \<not> js_eq (Fin 2) (Fin (- 1))
   \<and> find (\<lambda>q. js_eq (index q) (Fin 2)) (availableQualities watching) = Some quality5"
  by (simp add: watching_def mounted_def quality5_def quality50_def js_eq_def)

lemma watching_variants:
  "availableQualities watching_faulty = availableQualities watching"
  "availableQualities watching_rejecting = availableQualities watching"
  "availableQualities watching_paused = availableQualities watching"
  by (simp_all add: watching_faulty_def watching_rejecting_def watching_paused_def)

subsection \<open>Subtitle selection\<close>

text \<open>
  Claim C5. For every playback time and every list of subtitle lines, in any order, the
  subtitle shown is the text of the first line whose interval from start to end contains
  the time, both ends included, and the empty string when no line contains it (the empty
  list included). The selection is the function \<open>selectSubtitle\<close> of the time and
  the list alone, and the subtitle effect stores its value for the current time and the
  processed subtitles. For finite numbers, a line contains the time \<open>x\<close> exactly
  when \<open>start \<le> x \<le> end\<close>.
\<close>

theorem subtitle_selection:
  "currentSubtitle (subtitleEffect c s) =
     selectSubtitle (currentTime c) (processedSubtitles (subtitles c))
   \<and> ((\<forall>l\<in>set subs. \<not> covers t l) \<longrightarrow> selectSubtitle t subs = [])
   \<and> (i < length subs \<and> covers t (subs ! i) \<and> (\<forall>j<i. \<not> covers t (subs ! j)) \<longrightarrow>
        selectSubtitle t subs = sub_text (subs ! i))
   \<and> (startTime l = Fin a \<and> endTime l = Fin b \<longrightarrow> covers (Fin x) l = (a \<le> x \<and> x \<le> b))"
proof (intro conjI impI)
  show "currentSubtitle (subtitleEffect c s) =
     selectSubtitle (currentTime c) (processedSubtitles (subtitles c))"
    by (simp add: subtitleEffect_def)
next
  assume "\<forall>l\<in>set subs. \<not> covers t l"
  then have "find (covers t) subs = None" by (rule find_none)
  then show "selectSubtitle t subs = []" by (simp add: selectSubtitle_def)
next
  assume h: "i < length subs \<and> covers t (subs ! i) \<and> (\<forall>j<i. \<not> covers t (subs ! j))"
  then have "find (covers t) subs = Some (subs ! i)" by (simp add: find_first)
  moreover from h have "subs \<noteq> []" by auto
  ultimately show "selectSubtitle t subs = sub_text (subs ! i)"
    by (simp add: selectSubtitle_def truthy_str_def)
next
  assume "startTime l = Fin a \<and> endTime l = Fin b"
  then show "covers (Fin x) l = (a \<le> x \<and> x \<le> b)"
    by (auto simp add: covers_def js_ge_def js_le_def js_eq_def)
qed

lemma two_lines_processed: "processedSubtitles two_raw_lines = two_lines"
  by code_simp

text \<open>Between the two lines nothing is shown; at second 3, the start of the second
  line, its text is shown; second 2 is inside the first line.\<close>

theorem subtitle_selection_witness:
  "selectSubtitle (Fin (5 / 2)) two_lines = []
   \<and> selectSubtitle (Fin 3) two_lines = ''second''
   \<and> covers (Fin 2) (two_lines ! 0)
   \<and> currentSubtitle (subtitleEffect at_second_3 at_second_3) = ''second''"
proof -
  have at3: "currentTime at_second_3 = Fin 3 \<and> subtitles at_second_3 = two_raw_lines"
    by (simp add: at_second_3_def)
  have none: "\<forall>l\<in>set two_lines. \<not> covers (Fin (5 / 2)) l"
    by (simp add: two_lines_def covers_def js_ge_def js_le_def js_eq_def)
  have second: "1 < length two_lines \<and> covers (Fin 3) (two_lines ! 1)
      \<and> (\<forall>j<1. \<not> covers (Fin 3) (two_lines ! j))"
    by (simp add: two_lines_def covers_def js_ge_def js_le_def js_eq_def)
  have ends: "startTime (two_lines ! 0) = Fin 1 \<and> endTime (two_lines ! 0) = Fin 2"
    by (simp add: two_lines_def)
  from none subtitle_selection [of _ _ two_lines "Fin (5 / 2)"]
  have "selectSubtitle (Fin (5 / 2)) two_lines = []" by blast
  moreover from second subtitle_selection [of _ _ two_lines "Fin 3" 1]
  have "selectSubtitle (Fin 3) two_lines = sub_text (two_lines ! 1)" by blast
  then have "selectSubtitle (Fin 3) two_lines = ''second''" by (simp add: two_lines_def)
  moreover from ends subtitle_selection [of _ _ two_lines "Fin 3" 1 "two_lines ! 0" 1 2 2]
  have "covers (Fin 2) (two_lines ! 0)" by simp
  moreover from subtitle_selection [of at_second_3 at_second_3]
  have "currentSubtitle (subtitleEffect at_second_3 at_second_3) = selectSubtitle (Fin 3) two_lines"
    by (simp add: at3 two_lines_processed)
  ultimately show ?thesis by simp
qed

subsection \<open>Mute\<close>

text \<open>
  Claim C10. When \<open>toggleMute\<close> runs while the component is muted and the stored
  volume is 0, it unmutes the element and sets the stored volume and the element's
  volume to 0.5; while it is not muted, it mutes and the stored volume stays as it is;
  with no video element it changes nothing.
\<close>

theorem toggleMute_cases:
  "(videoPlayerRef s = Some v \<and> isMuted c \<and> js_eq (volume c) (Fin 0) \<longrightarrow>
      toggleMute c s =
        s\<lparr>videoPlayerRef := Some (v\<lparr>muted := False, el_volume := Fin (1 / 2)\<rparr>),
          isMuted := False, volume := Fin (1 / 2)\<rparr>)
   \<and> (videoPlayerRef s = Some v \<and> \<not> isMuted c \<longrightarrow>
        toggleMute c s = s\<lparr>videoPlayerRef := Some (v\<lparr>muted := True\<rparr>), isMuted := True\<rparr>
        \<and> volume (toggleMute c s) = volume s)
   \<and> (videoPlayerRef s = None \<longrightarrow> toggleMute c s = s)"
  by (simp add: toggleMute_def)

theorem toggleMute_cases_witness:
  "toggleMute muted_at_zero muted_at_zero =
     muted_at_zero\<lparr>videoPlayerRef := Some (mounted_video\<lparr>muted := False, el_volume := Fin (1 / 2)\<rparr>),
       isMuted := False, volume := Fin (1 / 2)\<rparr>
   \<and> toggleMute mounted mounted =
       mounted\<lparr>videoPlayerRef := Some (mounted_video\<lparr>muted := True\<rparr>), isMuted := True\<rparr>
   \<and> volume (toggleMute mounted mounted) = js_lit (7 / 10)
   \<and> toggleMute no_element no_element = no_element"
  using toggleMute_cases [of muted_at_zero mounted_video muted_at_zero]
        toggleMute_cases [of mounted mounted_video mounted]
        toggleMute_cases [of no_element mounted_video no_element]
  by (simp add: mounted_def muted_at_zero_def no_element_def js_eq_def)

subsection \<open>Teardown\<close>




subsection \<open>Explicit quality switch\<close>

lemma fireTimer_keeps_empty_message:
  "switchMessage s = [] \<Longrightarrow> switchMessage (fireTimer h s) = []"
  by (simp add: fireTimer_def run_action_def clearTimeout_def
      split: option.split timer_action.split)

text \<open>The state after an explicit switch during which the engine raised, and after one
  that went through; \<open>play\<close> is applied when the component was playing.\<close>

lemma changeQuality_switch_fails:
  assumes "playerRef s = Some e" and "availableQualities c \<noteq> []" and "\<not> js_eq i (Fin (- 1))"
    and "find (\<lambda>q. js_eq (index q) i) (availableQualities c) = Some q" and "switchThrows e"
  shows "changeQuality c i s =
     Inr ((if isPlaying c \<and> videoPlayerRef s \<noteq> None then play else (\<lambda>x. x))
       (s\<lparr>timers := timers s @ [(nextTimer s, 2000, ClearSwitchMessage)],
          nextTimer := nextTimer s + 1,
          console := console s @ [SwitchQualityFailed],
          playerRef := Some (updateSettings (Some True) None (updateSettings (Some False) None e)),
          currentQualityIndex := Fin (- 1),
          currentQuality := auto_label,
          switchMessage := []\<rparr>))"
  using assms
  by (auto simp add: changeQuality_def Let_def and_then_def try_catch_def
      setRepresentationForTypeByIndex_def setTimeout_def updateSettings_def)

lemma changeQuality_switch_succeeds:
  assumes "playerRef s = Some e" and "availableQualities c \<noteq> []" and "\<not> js_eq i (Fin (- 1))"
    and "find (\<lambda>q. js_eq (index q) i) (availableQualities c) = Some q" and "\<not> switchThrows e"
  shows "changeQuality c i s =
     Inr ((if isPlaying c \<and> videoPlayerRef s \<noteq> None then play else (\<lambda>x. x))
       (s\<lparr>switchMessage := switching_message (label q),
          timers := timers s @ [(nextTimer s, 2000, ClearSwitchMessage)],
          nextTimer := nextTimer s + 1,
          playerRef := Some ((updateSettings (Some False) None e)
             \<lparr>calls := calls e @ [UpdateSettings (Some False) None, SetRepresentationForTypeByIndex i]\<rparr>),
          currentQualityIndex := i,
          currentQuality := label q,
          currentAutoQuality := []\<rparr>))"
  using assms
  by (auto simp add: changeQuality_def Let_def and_then_def try_catch_def
      setRepresentationForTypeByIndex_def setTimeout_def updateSettings_def)

text \<open>
  Claim C3. If the engine throws during an explicit quality switch, \<open>changeQuality\<close>
  still returns normally; afterwards automatic bitrate switching of video is on again,
  the current quality index is -1, the label is the automatic label and the transient
  message is empty. The timer the switch started is pending, and whichever timer fires
  afterwards, the message is still empty. The host's error callback is not called.
\<close>

theorem changeQuality_failure_recovers:
  "playerRef s = Some e \<and> availableQualities c \<noteq> [] \<and> \<not> js_eq i (Fin (- 1))
   \<and> find (\<lambda>q. js_eq (index q) i) (availableQualities c) = Some q \<and> switchThrows e \<longrightarrow>
   (\<exists>s' e'. changeQuality c i s = Inr s' \<and> playerRef s' = Some e' \<and> autoSwitchVideo e'
      \<and> currentQualityIndex s' = Fin (- 1) \<and> currentQuality s' = auto_label
      \<and> switchMessage s' = []
      \<and> (nextTimer s, 2000, ClearSwitchMessage) \<in> set (timers s')
      \<and> (\<forall>h. switchMessage (fireTimer h s') = [])
      \<and> onErrorCalls s' = onErrorCalls s)"
proof
  assume h: "playerRef s = Some e \<and> availableQualities c \<noteq> [] \<and> \<not> js_eq i (Fin (- 1))
   \<and> find (\<lambda>q. js_eq (index q) i) (availableQualities c) = Some q \<and> switchThrows e"
  let ?s' = "(if isPlaying c \<and> videoPlayerRef s \<noteq> None then play else (\<lambda>x. x))
       (s\<lparr>timers := timers s @ [(nextTimer s, 2000, ClearSwitchMessage)],
          nextTimer := nextTimer s + 1,
          console := console s @ [SwitchQualityFailed],
          playerRef := Some (updateSettings (Some True) None (updateSettings (Some False) None e)),
          currentQualityIndex := Fin (- 1),
          currentQuality := auto_label,
          switchMessage := []\<rparr>)"
  from h have r: "changeQuality c i s = Inr ?s'" by (simp add: changeQuality_switch_fails)
  have m: "switchMessage ?s' = []"
    by (simp add: play_def split: option.split)
  have "playerRef ?s' = Some (updateSettings (Some True) None (updateSettings (Some False) None e))"
    by (simp add: play_def split: option.split)
  moreover have "autoSwitchVideo (updateSettings (Some True) None (updateSettings (Some False) None e))"
    by (simp add: updateSettings_def)
  moreover have "currentQualityIndex ?s' = Fin (- 1) \<and> currentQuality ?s' = auto_label"
    by (simp add: play_def split: option.split)
  moreover have "(nextTimer s, 2000, ClearSwitchMessage) \<in> set (timers ?s')"
    by (simp add: play_def split: option.split)
  moreover have "\<forall>h. switchMessage (fireTimer h ?s') = []"
    using m by (simp add: fireTimer_keeps_empty_message)
  moreover have "onErrorCalls ?s' = onErrorCalls s"
    by (simp add: play_def split: option.split)
  ultimately show "\<exists>s' e'. changeQuality c i s = Inr s' \<and> playerRef s' = Some e' \<and> autoSwitchVideo e'
      \<and> currentQualityIndex s' = Fin (- 1) \<and> currentQuality s' = auto_label
      \<and> switchMessage s' = []
      \<and> (nextTimer s, 2000, ClearSwitchMessage) \<in> set (timers s')
      \<and> (\<forall>h. switchMessage (fireTimer h s') = [])
      \<and> onErrorCalls s' = onErrorCalls s"
    using r m by blast
qed

theorem changeQuality_failure_recovers_witness:
  "switchThrows (streaming_engine\<lparr>switchThrows := True\<rparr>)
   \<and> (\<exists>s' e'. changeQuality watching_faulty (Fin 2) watching_faulty = Inr s'
        \<and> playerRef s' = Some e' \<and> autoSwitchVideo e'
        \<and> currentQualityIndex s' = Fin (- 1) \<and> currentQuality s' = auto_label
        \<and> switchMessage s' = []
        \<and> (nextTimer watching_faulty, 2000, ClearSwitchMessage) \<in> set (timers s')
        \<and> (\<forall>h. switchMessage (fireTimer h s') = [])
        \<and> onErrorCalls s' = onErrorCalls watching_faulty)"
proof -
  have "playerRef watching_faulty = Some (streaming_engine\<lparr>switchThrows := True\<rparr>)"
    by (simp add: watching_faulty_def)
  moreover have "switchThrows (streaming_engine\<lparr>switchThrows := True\<rparr>)" by simp
  ultimately show ?thesis
    using watching_target watching_variants(1)
      changeQuality_failure_recovers [of watching_faulty "streaming_engine\<lparr>switchThrows := True\<rparr>"
        watching_faulty "Fin 2" quality5]
    by simp
qed

text \<open>
  Claim C8. After an explicit quality switch that went through, if the component was
  playing when the switch began (\<open>isPlaying\<close> of the render that made the handler),
  \<open>play\<close> is called on the video element; when the element rejects the call, a line
  is written to the console and nothing else happens. When the component was not
  playing, the element is left alone.
\<close>

theorem changeQuality_resumes_playback:
  "(playerRef s = Some e \<and> availableQualities c \<noteq> [] \<and> \<not> js_eq i (Fin (- 1))
    \<and> find (\<lambda>q. js_eq (index q) i) (availableQualities c) = Some q \<and> \<not> switchThrows e
    \<and> videoPlayerRef s = Some v \<and> isPlaying c \<and> \<not> playRejects v \<longrightarrow>
      (\<exists>s'. changeQuality c i s = Inr s' \<and> currentQualityIndex s' = i
         \<and> videoPlayerRef s' = Some (v\<lparr>paused := False, playCalls := playCalls v + 1\<rparr>)
         \<and> console s' = console s \<and> onErrorCalls s' = onErrorCalls s))
   \<and> (playerRef s = Some e \<and> availableQualities c \<noteq> [] \<and> \<not> js_eq i (Fin (- 1))
    \<and> find (\<lambda>q. js_eq (index q) i) (availableQualities c) = Some q \<and> \<not> switchThrows e
    \<and> videoPlayerRef s = Some v \<and> isPlaying c \<and> playRejects v \<longrightarrow>
      (\<exists>s'. changeQuality c i s = Inr s' \<and> currentQualityIndex s' = i
         \<and> videoPlayerRef s' = Some (v\<lparr>playCalls := playCalls v + 1\<rparr>)
         \<and> console s' = console s @ [PlayAfterSwitchFailed] \<and> onErrorCalls s' = onErrorCalls s))
   \<and> (playerRef s = Some e \<and> availableQualities c \<noteq> [] \<and> \<not> js_eq i (Fin (- 1))
    \<and> find (\<lambda>q. js_eq (index q) i) (availableQualities c) = Some q \<and> \<not> switchThrows e
    \<and> \<not> isPlaying c \<longrightarrow>
      (\<exists>s'. changeQuality c i s = Inr s' \<and> currentQualityIndex s' = i
         \<and> videoPlayerRef s' = videoPlayerRef s
         \<and> console s' = console s \<and> onErrorCalls s' = onErrorCalls s))"
  by (simp add: changeQuality_switch_succeeds play_def)

theorem changeQuality_resumes_playback_witness:
  "(\<exists>s'. changeQuality watching (Fin 2) watching = Inr s' \<and> currentQualityIndex s' = Fin 2
      \<and> videoPlayerRef s' = Some (mounted_video\<lparr>paused := False, playCalls := 1\<rparr>)
      \<and> console s' = [] \<and> onErrorCalls s' = [])
   \<and> (\<exists>s'. changeQuality watching_rejecting (Fin 2) watching_rejecting = Inr s'
      \<and> currentQualityIndex s' = Fin 2
      \<and> videoPlayerRef s' = Some (mounted_video\<lparr>playRejects := True, playCalls := 1\<rparr>)
      \<and> console s' = [PlayAfterSwitchFailed] \<and> onErrorCalls s' = [])
   \<and> (\<exists>s'. changeQuality watching_paused (Fin 2) watching_paused = Inr s'
      \<and> currentQualityIndex s' = Fin 2
      \<and> videoPlayerRef s' = Some mounted_video
      \<and> console s' = [] \<and> onErrorCalls s' = [])"
proof -
  have a: "playerRef watching = Some streaming_engine \<and> \<not> switchThrows streaming_engine
      \<and> videoPlayerRef watching = Some (mounted_video\<lparr>paused := False\<rparr>) \<and> isPlaying watching
      \<and> \<not> playRejects (mounted_video\<lparr>paused := False\<rparr>)
      \<and> console watching = [] \<and> onErrorCalls watching = []"
    by (simp add: watching_def mounted_def streaming_engine_def fresh_engine_def mounted_video_def)
  have b: "playerRef watching_rejecting = Some streaming_engine
      \<and> videoPlayerRef watching_rejecting = Some (mounted_video\<lparr>playRejects := True\<rparr>)
      \<and> isPlaying watching_rejecting \<and> playRejects (mounted_video\<lparr>playRejects := True\<rparr>)
      \<and> console watching_rejecting = [] \<and> onErrorCalls watching_rejecting = []"
    by (simp add: watching_rejecting_def watching_def mounted_def)
  have c: "playerRef watching_paused = Some streaming_engine \<and> \<not> isPlaying watching_paused
      \<and> videoPlayerRef watching_paused = Some mounted_video
      \<and> console watching_paused = [] \<and> onErrorCalls watching_paused = []"
    by (simp add: watching_paused_def watching_def mounted_def)
  have v: "playCalls mounted_video = 0"
    by (simp add: mounted_video_def)
  from a watching_target
    changeQuality_resumes_playback [of watching streaming_engine watching "Fin 2" quality5
      "mounted_video\<lparr>paused := False\<rparr>"]
  have "\<exists>s'. changeQuality watching (Fin 2) watching = Inr s' \<and> currentQualityIndex s' = Fin 2
      \<and> videoPlayerRef s' = Some (mounted_video\<lparr>paused := False, playCalls := 1\<rparr>)
      \<and> console s' = [] \<and> onErrorCalls s' = []"
    by (simp add: v)
  moreover from a b watching_target watching_variants(2)
    changeQuality_resumes_playback [of watching_rejecting streaming_engine watching_rejecting
      "Fin 2" quality5 "mounted_video\<lparr>playRejects := True\<rparr>"]
  have "\<exists>s'. changeQuality watching_rejecting (Fin 2) watching_rejecting = Inr s'
      \<and> currentQualityIndex s' = Fin 2
      \<and> videoPlayerRef s' = Some (mounted_video\<lparr>playRejects := True, playCalls := 1\<rparr>)
      \<and> console s' = [PlayAfterSwitchFailed] \<and> onErrorCalls s' = []"
    by (simp add: v)
  moreover from a c watching_target watching_variants(3)
    changeQuality_resumes_playback [of watching_paused streaming_engine watching_paused
      "Fin 2" quality5]
  have "\<exists>s'. changeQuality watching_paused (Fin 2) watching_paused = Inr s'
      \<and> currentQualityIndex s' = Fin 2
      \<and> videoPlayerRef s' = Some mounted_video
      \<and> console s' = [] \<and> onErrorCalls s' = []"
    by simp
  ultimately show ?thesis by blast
qed

subsection \<open>The automatic label\<close>









subsection \<open>Attaching a source\<close>

text \<open>
  Claim C7, as amended. \<open>updateSrc\<close> reports an error through the host's error
  callback (a call that does nothing when the host gave none), never by throwing, in
  three cases. With no engine and no video element, the two errors of \<open>initPlayer\<close> and
  \<open>updateSrc\<close> are reported and nothing else changes. With an engine and an empty
  source address, the error is reported and nothing else changes. With no engine, a
  video element and an empty source address, the engine is first created, configured and
  initialised with the component's current \<open>options.src\<close>, the host's \<open>onLoaded\<close>
  is called, and then the error is reported; the new source is not attached. In the two
  remaining cases no error is reported and the source is attached: with an engine and
  a non-empty source address, whether or not there is a video element, and with no
  engine, a video element and a non-empty source address, after the engine has been
  created.
\<close>

theorem updateSrc_errors:
  "(playerRef s = None \<and> videoPlayerRef s = None \<longrightarrow>
      updateSrc c newSource s =
        Inr (call_onError c PlayerNotInitialised (call_onError c VideoElementNotInitialised s)))
   \<and> (playerRef s = Some e \<and> src newSource = [] \<longrightarrow>
      updateSrc c newSource s = Inr (call_onError c EmptySourceAddress s))
   \<and> (playerRef s = None \<and> videoPlayerRef s = Some v \<and> src newSource = [] \<longrightarrow>
      updateSrc c newSource s =
        Inr (call_onError c EmptySourceAddress
          (call_onLoaded c
            (s\<lparr>playerRef := Some
                (initialize (src (options c)) (autoPlay c)
                  (on QUALITY_CHANGE_RENDERED (capture c)
                    (on STREAM_INITIALIZED (capture c)
                      (on PLAYBACK_ENDED (capture c)
                        (on ERROR (capture c)
                          (updateSettings (Some True) (Some True)
                            (MediaPlayer_create s)))))))\<rparr>))))
   \<and> (onError c \<longrightarrow> call_onError c err s = s\<lparr>onErrorCalls := onErrorCalls s @ [err]\<rparr>)
   \<and> (\<not> onError c \<longrightarrow> call_onError c err s = s)
   \<and> (playerRef s = Some e \<and> src newSource \<noteq> [] \<longrightarrow>
      updateSrc c newSource s =
        Inr ((revokePreviousBlobUrl s)\<lparr>playerRef := Some (attachSource (src newSource) e)\<rparr>))
   \<and> (playerRef s = None \<and> videoPlayerRef s = Some v \<and> src newSource \<noteq> [] \<longrightarrow>
      updateSrc c newSource s =
        Inr ((revokePreviousBlobUrl (call_onLoaded c s))
          \<lparr>playerRef := Some
              (attachSource (src newSource)
                (initialize (src (options c)) (autoPlay c)
                  (on QUALITY_CHANGE_RENDERED (capture c)
                    (on STREAM_INITIALIZED (capture c)
                      (on PLAYBACK_ENDED (capture c)
                        (on ERROR (capture c)
                          (updateSettings (Some True) (Some True)
                            (MediaPlayer_create s))))))))\<rparr>))"
  by (simp add: updateSrc_def initPlayer_def and_then_def call_onError_def call_onLoaded_def
      revokePreviousBlobUrl_def revokeObjectURL_def truthy_str_def Let_def
      split: option.split)

theorem updateSrc_errors_witness:
  "updateSrc no_element \<lparr>src = ''blob:1''\<rparr> no_element =
     Inr (no_element\<lparr>onErrorCalls := [VideoElementNotInitialised, PlayerNotInitialised]\<rparr>)
   \<and> updateSrc watching \<lparr>src = []\<rparr> watching = Inr (watching\<lparr>onErrorCalls := [EmptySourceAddress]\<rparr>)
   \<and> updateSrc mounted \<lparr>src = []\<rparr> mounted =
       Inr (mounted\<lparr>playerRef := Some lazily_created, onLoadedCalls := 1,
             onErrorCalls := [EmptySourceAddress]\<rparr>)
   \<and> call_onError mounted EmptySourceAddress mounted = mounted\<lparr>onErrorCalls := [EmptySourceAddress]\<rparr>
   \<and> call_onError (mounted\<lparr>onError := False\<rparr>) EmptySourceAddress mounted = mounted
   \<and> updateSrc watching \<lparr>src = ''blob:2''\<rparr> watching =
       Inr (watching\<lparr>playerRef := Some (attachSource ''blob:2'' streaming_engine)\<rparr>)
   \<and> updateSrc mounted \<lparr>src = ''blob:2''\<rparr> mounted =
       Inr (mounted\<lparr>playerRef := Some (attachSource ''blob:2'' lazily_created),
             onLoadedCalls := 1\<rparr>)"
proof -
  have n: "playerRef no_element = None \<and> videoPlayerRef no_element = None \<and> onError no_element
      \<and> onErrorCalls no_element = []"
    by (simp add: no_element_def mounted_def)
  have w: "playerRef watching = Some streaming_engine \<and> src \<lparr>src = []\<rparr> = [] \<and> onError watching
      \<and> onErrorCalls watching = [] \<and> src \<lparr>src = ''blob:2''\<rparr> \<noteq> []
      \<and> previousBlobUrl watching = None"
    by (simp add: watching_def mounted_def)
  have m: "playerRef mounted = None \<and> videoPlayerRef mounted = Some mounted_video
      \<and> onError mounted \<and> onLoaded mounted \<and> onErrorCalls mounted = [] \<and> onLoadedCalls mounted = 0
      \<and> src (options mounted) = [] \<and> \<not> autoPlay mounted \<and> MediaPlayer_create mounted = fresh_engine
      \<and> capture mounted = at_mount \<and> previousBlobUrl mounted = None"
    by (simp add: mounted_def capture_def at_mount_def)
  have f: "\<not> onError (mounted\<lparr>onError := False\<rparr>)" by simp
  have l: "initialize [] False
      (on QUALITY_CHANGE_RENDERED at_mount (on STREAM_INITIALIZED at_mount
        (on PLAYBACK_ENDED at_mount (on ERROR at_mount
          (updateSettings (Some True) (Some True) fresh_engine))))) = lazily_created"
    by (simp add: lazily_created_def initialize_def on_def updateSettings_def fresh_engine_def)
  from n updateSrc_errors [where s = no_element and c = no_element and newSource = "\<lparr>src = ''blob:1''\<rparr>"]
  have "updateSrc no_element \<lparr>src = ''blob:1''\<rparr> no_element =
     Inr (no_element\<lparr>onErrorCalls := [VideoElementNotInitialised, PlayerNotInitialised]\<rparr>)"
    by (simp add: call_onError_def)
  moreover from w updateSrc_errors [where s = watching and c = watching and newSource = "\<lparr>src = []\<rparr>"
      and e = streaming_engine]
  have "updateSrc watching \<lparr>src = []\<rparr> watching = Inr (watching\<lparr>onErrorCalls := [EmptySourceAddress]\<rparr>)"
    by (simp add: call_onError_def)
  moreover from m updateSrc_errors [where s = mounted and c = mounted and newSource = "\<lparr>src = []\<rparr>"
      and v = mounted_video]
  have "updateSrc mounted \<lparr>src = []\<rparr> mounted =
       Inr (mounted\<lparr>playerRef := Some lazily_created, onLoadedCalls := 1,
             onErrorCalls := [EmptySourceAddress]\<rparr>)"
    by (simp add: call_onError_def call_onLoaded_def l)
  moreover from m updateSrc_errors [where s = mounted and c = mounted and err = EmptySourceAddress]
  have "call_onError mounted EmptySourceAddress mounted = mounted\<lparr>onErrorCalls := [EmptySourceAddress]\<rparr>"
    by simp
  moreover from f updateSrc_errors [where s = mounted and c = "mounted\<lparr>onError := False\<rparr>"
      and err = EmptySourceAddress]
  have "call_onError (mounted\<lparr>onError := False\<rparr>) EmptySourceAddress mounted = mounted"
    by simp
  moreover from w updateSrc_errors [where s = watching and c = watching and newSource = "\<lparr>src = ''blob:2''\<rparr>"
      and e = streaming_engine]
  have "updateSrc watching \<lparr>src = ''blob:2''\<rparr> watching =
       Inr (watching\<lparr>playerRef := Some (attachSource ''blob:2'' streaming_engine)\<rparr>)"
    by (simp add: revokePreviousBlobUrl_def)
  moreover from m updateSrc_errors [where s = mounted and c = mounted and newSource = "\<lparr>src = ''blob:2''\<rparr>"
      and v = mounted_video]
  have "updateSrc mounted \<lparr>src = ''blob:2''\<rparr> mounted =
       Inr (mounted\<lparr>playerRef := Some (attachSource ''blob:2'' lazily_created),
             onLoadedCalls := 1\<rparr>)"
    by (simp add: call_onLoaded_def revokePreviousBlobUrl_def l)
  ultimately show ?thesis by blast
qed

text \<open>Claim C7 as it was stated fails in three ways. On the mounted component, which
  has no engine yet, \<open>updateSrc\<close> called with an empty source address reports the
  error but leaves an engine behind that it has created and initialised, and has called
  \<open>onLoaded\<close>. On the watching component whose video element has gone, it attaches
  the new source to the engine and reports nothing. On a component with no engine, no
  video element and no error callback, it reports nothing.\<close>

theorem updateSrc_empty_source_creates_engine:
  "src \<lparr>src = []\<rparr> = [] \<and> playerRef mounted = None \<and> onLoadedCalls mounted = 0
   \<and> updateSrc mounted \<lparr>src = []\<rparr> mounted =
       Inr (mounted\<lparr>playerRef := Some lazily_created, onLoadedCalls := 1,
             onErrorCalls := [EmptySourceAddress]\<rparr>)
   \<and> calls lazily_created \<noteq> []
   \<and> videoPlayerRef element_gone = None \<and> playerRef element_gone = Some streaming_engine
   \<and> onError element_gone \<and> onErrorCalls element_gone = []
   \<and> updateSrc element_gone \<lparr>src = ''blob:2''\<rparr> element_gone =
       Inr (element_gone\<lparr>playerRef := Some (attachSource ''blob:2'' streaming_engine)\<rparr>)
   \<and> videoPlayerRef silent_no_element = None \<and> playerRef silent_no_element = None
   \<and> updateSrc silent_no_element \<lparr>src = ''blob:2''\<rparr> silent_no_element = Inr silent_no_element"
  by (simp add: updateSrc_def initPlayer_def and_then_def call_onError_def call_onLoaded_def
      truthy_str_def Let_def mounted_def lazily_created_def initialize_def on_def
      updateSettings_def fresh_engine_def capture_def at_mount_def element_gone_def
      silent_no_element_def no_element_def watching_def revokePreviousBlobUrl_def)

subsection \<open>The selectable quality list\<close>










subsection \<open>Rounding\<close>

text \<open>A non-negative integer below \<open>2^53\<close> is a double: rounding leaves it as it is.\<close>

lemma bit_length_upper: "0 \<le> n \<Longrightarrow> n < 2 ^ bit_length n"
proof (induction n rule: bit_length.induct)
  case (1 n)
  show ?case
  proof (cases "n \<le> 0")
    case True
    with 1(2) have "n = 0" by simp
    then show ?thesis by (subst bit_length.simps) simp
  next
    case False
    then have s: "bit_length n = Suc (bit_length (n div 2))" by (subst bit_length.simps) simp
    from False 1 have "n div 2 < 2 ^ bit_length (n div 2)" by simp
    then have "n < 2 * 2 ^ bit_length (n div 2)" by arith
    with s show ?thesis by simp
  qed
qed

lemma bit_length_lower: "0 < n \<Longrightarrow> \<exists>l. bit_length n = Suc l \<and> 2 ^ l \<le> n"
proof (induction n rule: bit_length.induct)
  case (1 n)
  from 1(2) have s: "bit_length n = Suc (bit_length (n div 2))" by (subst bit_length.simps) simp
  show ?case
  proof (cases "0 < n div 2")
    case False
    then have "bit_length (n div 2) = 0" by (subst bit_length.simps) simp
    with s 1(2) show ?thesis by simp
  next
    case True
    with 1 obtain l where l: "bit_length (n div 2) = Suc l" "2 ^ l \<le> n div 2" by auto
    from l(2) have "2 * 2 ^ l \<le> n" by arith
    with s l(1) show ?thesis by simp
  qed
qed

lemma round_double_int:
  assumes "0 \<le> n" and "n < 2 ^ 53"
  shows "round_double (of_int n) = Fin (of_int n)"
proof (cases "n = 0")
  case True
  then show ?thesis by (simp add: round_double_def)
next
  case False
  with assms(1) have pos: "0 < n" by simp
  from bit_length_lower [OF pos] obtain l where l: "bit_length n = Suc l" "2 ^ l \<le> n" by blast
  from l(2) assms(2) have "(2::int) ^ l < 2 ^ 53" by simp
  then have "l < 53" by (rule power_less_imp_less_exp [rotated]) simp
  then have l52: "l \<le> 52" by simp
  have one: "bit_length 1 = 1" by (subst bit_length.simps, subst bit_length.simps) simp
  have b: "binade n 1 = int l"
    using l by (simp add: binade_def one scale2_def)
  have r: "round_half_even m 1 = m" for m by (simp add: round_half_even_def)
  have q: "quotient_of (of_int n) = (n, 1)" by simp
  from pos have a: "\<bar>n\<bar> = n" by simp
  have m: "max (int l) (- 1022) = int l" by simp
  have nz: "(of_int n :: rat) \<noteq> 0" "(0::rat) < of_int n" using pos by simp_all
  define k where "k = 52 - l"
  with l52 have kl: "int l = 52 - int k" by simp
  have s1: "scale2 n 1 (52 - int l) = (n * 2 ^ k, 1)"
    by (simp add: scale2_def kl)
  have s2: "scale2 (n * 2 ^ k) 1 (int l - 52) = (n * 2 ^ k, 2 ^ k)"
    by (cases "k = 0") (simp_all add: scale2_def kl)
  have ov: "\<not> (1024 \<le> int l \<or> (int l = 1023 \<and> n * 2 ^ k = 2 ^ 53))"
    using l52 by simp
  have "round_double (of_int n) = Fin (of_int (n * 2 ^ k) / of_int (2 ^ k))"
    unfolding round_double_def q Let_def prod.case a b m s1 r s2
    using nz ov by simp
  then show ?thesis by simp
qed

subsection \<open>Time codec\<close>

lemma is_digit_iff: "is_digit c = (c \<in> set ''0123456789'')"
  by (auto simp add: is_digit_def digit_in_def split: option.splits if_splits)

lemma split_on_no_separator: "c \<notin> set a \<Longrightarrow> split_on c a = [a]"
  by (induction a) auto

lemma split_on_at_separator: "c \<notin> set a \<Longrightarrow> split_on c (a @ c # b) = a # split_on c b"
  by (induction a) auto

text \<open>Strings of decimal digits.\<close>

lemma strip_leading_none:
  "\<forall>w\<in>set ws. w = [] \<or> hd w \<noteq> c \<Longrightarrow> strip_leading ws (c # cs) = c # cs"
proof -
  assume a: "\<forall>w\<in>set ws. w = [] \<or> hd w \<noteq> c"
  have "find (\<lambda>w. w \<noteq> [] \<and> take (length w) (c # cs) = w) ws = None"
  proof -
    have "\<not> (w \<noteq> [] \<and> take (length w) (c # cs) = w)" if "w \<in> set ws" for w
    proof (cases w)
      case Nil
      then show ?thesis by simp
    next
      case (Cons x xs)
      with a that have "x \<noteq> c" by auto
      with Cons show ?thesis by auto
    qed
    then show ?thesis by (simp add: find_None_iff)
  qed
  then show ?thesis by (subst strip_leading.simps) simp
qed

lemma digit_not_white:
  "is_digit c \<Longrightarrow> (\<forall>w\<in>set white_space. w = [] \<or> hd w \<noteq> c)
     \<and> (\<forall>w\<in>set (map rev white_space). w = [] \<or> hd w \<noteq> c)"
  by (auto simp add: white_space_def is_digit_iff)

lemma trim_digits:
  assumes "ds \<noteq> []" and "list_all is_digit ds"
  shows "trim ds = ds"
proof -
  from assms obtain c cs where ds: "ds = c # cs" and c: "is_digit c" by (cases ds) simp_all
  from c have a: "strip_leading white_space ds = ds"
    unfolding ds by (intro strip_leading_none) (simp add: digit_not_white)
  from assms obtain d rs where r: "rev ds = d # rs" by (cases "rev ds") simp_all
  then have "hd (rev ds) = d" by simp
  then have "d = last ds" by (simp add: hd_rev)
  with assms have "is_digit d" by (simp add: list_all_iff)
  then have "strip_leading (map rev white_space) (rev ds) = rev ds"
    unfolding r by (intro strip_leading_none) (simp add: digit_not_white)
  with a show ?thesis by (simp add: trim_def)
qed

lemma dec_val_Nil: "dec_val [] = 0"
  by (simp add: dec_val_def)

lemma radix_val_nonneg: "radix_val b acc ds = Some n \<Longrightarrow> 0 \<le> acc \<Longrightarrow> 0 \<le> n"
  by (induction ds arbitrary: acc) (auto split: option.splits)

lemma dec_val_nonneg: "0 \<le> dec_val ds"
  using radix_val_nonneg [of 10 0 ds] by (simp add: dec_val_def split: option.split)

lemma unsigned_decimal_digits:
  assumes "ds \<noteq> []" and "list_all is_digit ds"
  shows "unsigned_decimal ds = round_double (of_int (dec_val ds))"
proof -
  from assms have "is_digit (hd ds)" by (cases ds) simp_all
  then have "hd ds \<noteq> CHR ''I''" by (auto simp add: is_digit_iff)
  with assms(1) have i: "ds \<noteq> ''Infinity''" by auto
  from assms(2) have w: "takeWhile is_digit ds = ds" "dropWhile is_digit ds = []"
    by (simp_all add: list_all_iff)
  show ?thesis
    using assms(1) by (simp add: unsigned_decimal_def exponent_part_def pow10_def dec_val_Nil i w)
qed

lemma Number_str_digits:
  assumes "ds \<noteq> []" and "list_all is_digit ds"
  shows "Number_str ds = js_lit (of_int (dec_val ds))"
proof -
  have t: "trim ds = ds" using assms by (rule trim_digits)
  from assms have h: "is_digit (hd ds)" by (cases ds) simp_all
  then have s: "hd ds \<noteq> CHR ''-''" "hd ds \<noteq> CHR ''+''" by (auto simp add: is_digit_iff)
  with assms(1) have d: "str_decimal ds = unsigned_decimal ds"
    by (cases ds) (simp_all add: str_decimal_def)
  show ?thesis
  proof (cases ds)
    case Nil
    with assms(1) show ?thesis by simp
  next
    case (Cons c0 r0)
    show ?thesis
    proof (cases r0)
      case Nil
      with Cons t d assms show ?thesis
        by (simp add: Number_str_def unsigned_decimal_digits js_lit_def)
    next
      case (Cons c1 r)
      with \<open>ds = c0 # r0\<close> assms(2) have "is_digit c1" by simp
      then have "c1 \<noteq> CHR ''x''" "c1 \<noteq> CHR ''X''" "c1 \<noteq> CHR ''o''" "c1 \<noteq> CHR ''O''"
        "c1 \<noteq> CHR ''b''" "c1 \<noteq> CHR ''B''" by (auto simp add: is_digit_iff)
      with Cons \<open>ds = c0 # r0\<close> t have "Number_str ds = str_decimal ds"
        by (simp add: Number_str_def)
      with d assms show ?thesis by (simp add: unsigned_decimal_digits js_lit_def)
    qed
  qed
qed

lemma separators_not_digits: "\<not> is_digit CHR '',''" "\<not> is_digit CHR '':''"
  by (simp_all add: is_digit_iff)

lemma digits_no_separator:
  "list_all is_digit ds \<Longrightarrow> CHR '','' \<notin> set ds \<and> CHR '':'' \<notin> set ds"
  using separators_not_digits by (auto simp add: list_all_iff)

lemma parse_parts:
  assumes "H \<noteq> []" "list_all is_digit H" "M \<noteq> []" "list_all is_digit M"
    "S \<noteq> []" "list_all is_digit S"
  shows "map Number_str (split_on CHR '':'' (H @ CHR '':'' # M @ CHR '':'' # S)) =
     [js_lit (of_int (dec_val H)), js_lit (of_int (dec_val M)), js_lit (of_int (dec_val S))]"
proof -
  from assms have c: "CHR '':'' \<notin> set H" "CHR '':'' \<notin> set M" "CHR '':'' \<notin> set S"
    by (simp_all add: digits_no_separator)
  have "split_on CHR '':'' (H @ CHR '':'' # M @ CHR '':'' # S)
      = H # split_on CHR '':'' (M @ CHR '':'' # S)"
    using c(1) by (rule split_on_at_separator)
  also have "split_on CHR '':'' (M @ CHR '':'' # S) = M # split_on CHR '':'' S"
    using c(2) by (rule split_on_at_separator)
  also have "split_on CHR '':'' S = [S]"
    using c(3) by (rule split_on_no_separator)
  finally show ?thesis using assms by (simp add: Number_str_digits)
qed

lemma time_no_comma:
  assumes "list_all is_digit H" "list_all is_digit M" "list_all is_digit S"
  shows "CHR '','' \<notin> set (H @ CHR '':'' # M @ CHR '':'' # S)"
  using assms digits_no_separator [of H] digits_no_separator [of M] digits_no_separator [of S]
  by simp

lemma parseTimeToSeconds_parts:
  assumes "split_on CHR '','' str = time # rest"
    and "map Number_str (split_on CHR '':'' time) = [h, m, s]"
  shows "parseTimeToSeconds str =
     js_add (js_add (js_add (js_mul h (Fin 3600)) (js_mul m (Fin 60))) s)
       (js_div (case nth_opt rest 0 of
                  None \<Rightarrow> Fin 0
                | Some ms \<Rightarrow> if truthy_str ms then Number_str ms else Fin 0) (Fin 1000))"
  using assms by (simp add: parseTimeToSeconds_def Let_def num_or_undefined_def numeral_2_eq_2)

lemma js_add_NaN: "js_add x NaN = NaN"
  by (cases x) simp_all

lemma parseTimeToSeconds_NaN:
  assumes "split_on CHR '','' str = time # F # rest" and "F \<noteq> []" and "Number_str F = NaN"
  shows "parseTimeToSeconds str = NaN"
  using assms
  by (simp add: parseTimeToSeconds_def Let_def truthy_str_def js_add_NaN)

lemma whole_seconds_exact:
  assumes "0 \<le> h" "0 \<le> m" "0 \<le> s" and "h * 3600 + m * 60 + s < 2 ^ 53"
  shows "js_add (js_add (js_mul (js_lit (of_int h)) (Fin 3600)) (js_mul (js_lit (of_int m)) (Fin 60)))
           (js_lit (of_int s)) = Fin (of_int (h * 3600 + m * 60 + s))"
proof -
  from assms have b: "h < 2 ^ 53" "m < 2 ^ 53" "s < 2 ^ 53" "h * 3600 < 2 ^ 53" "m * 60 < 2 ^ 53"
    "h * 3600 + m * 60 < 2 ^ 53" by simp_all
  from assms have n: "0 \<le> h * 3600" "0 \<le> m * 60" "0 \<le> h * 3600 + m * 60"
    "0 \<le> h * 3600 + m * 60 + s" by simp_all
  have "js_mul (js_lit (of_int h)) (Fin 3600) = round_double (of_int (h * 3600))"
    using assms(1) b(1) by (simp add: js_lit_def round_double_int)
  then have 1: "js_mul (js_lit (of_int h)) (Fin 3600) = Fin (of_int (h * 3600))"
    using n(1) b(4) by (simp only: round_double_int)
  have "js_mul (js_lit (of_int m)) (Fin 60) = round_double (of_int (m * 60))"
    using assms(2) b(2) by (simp add: js_lit_def round_double_int)
  then have 2: "js_mul (js_lit (of_int m)) (Fin 60) = Fin (of_int (m * 60))"
    using n(2) b(5) by (simp only: round_double_int)
  have 3: "js_lit (of_int s) = Fin (of_int s)"
    using assms(3) b(3) by (simp add: js_lit_def round_double_int)
  have "js_add (Fin (of_int (h * 3600))) (Fin (of_int (m * 60)))
      = round_double (of_int (h * 3600 + m * 60))" by simp
  then have 4: "js_add (Fin (of_int (h * 3600))) (Fin (of_int (m * 60)))
      = Fin (of_int (h * 3600 + m * 60))"
    using n(3) b(6) by (simp only: round_double_int)
  have "js_add (Fin (of_int (h * 3600 + m * 60))) (Fin (of_int s))
      = round_double (of_int (h * 3600 + m * 60 + s))" by simp
  then have 5: "js_add (Fin (of_int (h * 3600 + m * 60))) (Fin (of_int s))
      = Fin (of_int (h * 3600 + m * 60 + s))"
    using n(4) assms(4) by (simp only: round_double_int)
  show ?thesis by (simp only: 1 2 3 4 5)
qed

lemma js_add_zero_exact:
  assumes "0 \<le> n" and "n < 2 ^ 53"
  shows "js_add (Fin (of_int n)) (js_div (Fin 0) (Fin 1000)) = Fin (of_int n)"
proof -
  have "js_add (Fin (of_int n)) (js_div (Fin 0) (Fin 1000)) = round_double (of_int n)"
    by (simp add: round_double_def)
  with assms show ?thesis by (simp only: round_double_int)
qed

text \<open>
  Claim C6, as amended. For fields \<open>H\<close>, \<open>M\<close> and \<open>S\<close> of decimal digits and a
  non-empty millisecond segment \<open>F\<close>, \<open>parseTimeToSeconds\<close> maps the string
  \<open>H:M:S,F\<close> to \<open>hours * 3600 + minutes * 60 + seconds + ms / 1000\<close> in double
  arithmetic, each field and each operation rounded to the nearest double, where
  \<open>ms\<close> is \<open>Number(F)\<close>: the decimal value when \<open>F\<close> is a field of digits. When
  the millisecond segment is missing (there is no comma) or empty (nothing follows the
  comma), \<open>ms\<close> is 0. While \<open>hours * 3600 + minutes * 60 + seconds\<close> is below
  \<open>2^53\<close> that part of the sum is exact, and it is the result when \<open>ms\<close> is 0.
  Whenever \<open>Number(F)\<close> is NaN for a non-empty segment \<open>F\<close>, the result is NaN.
\<close>

theorem parseTimeToSeconds_formula:
  "(H \<noteq> [] \<and> list_all is_digit H \<and> M \<noteq> [] \<and> list_all is_digit M
     \<and> S \<noteq> [] \<and> list_all is_digit S \<and> F \<noteq> [] \<and> CHR '','' \<notin> set F \<longrightarrow>
      parseTimeToSeconds (H @ '':'' @ M @ '':'' @ S @ '','' @ F) =
        js_add
          (js_add
            (js_add (js_mul (js_lit (of_int (dec_val H))) (Fin 3600))
              (js_mul (js_lit (of_int (dec_val M))) (Fin 60)))
            (js_lit (of_int (dec_val S))))
          (js_div (Number_str F) (Fin 1000)))
   \<and> (F \<noteq> [] \<and> list_all is_digit F \<longrightarrow>
        CHR '','' \<notin> set F \<and> Number_str F = js_lit (of_int (dec_val F)))
   \<and> (H \<noteq> [] \<and> list_all is_digit H \<and> M \<noteq> [] \<and> list_all is_digit M
     \<and> S \<noteq> [] \<and> list_all is_digit S \<longrightarrow>
      parseTimeToSeconds (H @ '':'' @ M @ '':'' @ S) =
        js_add
          (js_add
            (js_add (js_mul (js_lit (of_int (dec_val H))) (Fin 3600))
              (js_mul (js_lit (of_int (dec_val M))) (Fin 60)))
            (js_lit (of_int (dec_val S))))
          (js_div (Fin 0) (Fin 1000))
      \<and> parseTimeToSeconds (H @ '':'' @ M @ '':'' @ S @ '','') =
        js_add
          (js_add
            (js_add (js_mul (js_lit (of_int (dec_val H))) (Fin 3600))
              (js_mul (js_lit (of_int (dec_val M))) (Fin 60)))
            (js_lit (of_int (dec_val S))))
          (js_div (Fin 0) (Fin 1000)))
   \<and> (dec_val H * 3600 + dec_val M * 60 + dec_val S < 2 ^ 53 \<longrightarrow>
        js_add
          (js_add (js_mul (js_lit (of_int (dec_val H))) (Fin 3600))
            (js_mul (js_lit (of_int (dec_val M))) (Fin 60)))
          (js_lit (of_int (dec_val S)))
        = Fin (of_int (dec_val H * 3600 + dec_val M * 60 + dec_val S))
      \<and> js_add (Fin (of_int (dec_val H * 3600 + dec_val M * 60 + dec_val S)))
          (js_div (Fin 0) (Fin 1000))
        = Fin (of_int (dec_val H * 3600 + dec_val M * 60 + dec_val S)))
   \<and> (CHR '','' \<notin> set T \<and> F \<noteq> [] \<and> CHR '','' \<notin> set F \<and> Number_str F = NaN \<longrightarrow>
        parseTimeToSeconds (T @ '','' @ F) = NaN)"
proof -
  let ?time = "H @ CHR '':'' # M @ CHR '':'' # S"
  let ?whole = "js_add
      (js_add (js_mul (js_lit (of_int (dec_val H))) (Fin 3600))
        (js_mul (js_lit (of_int (dec_val M))) (Fin 60)))
      (js_lit (of_int (dec_val S)))"
  have with_ms: "parseTimeToSeconds (?time @ CHR '','' # F) =
      js_add ?whole (js_div (Number_str F) (Fin 1000))"
    if h: "H \<noteq> []" "list_all is_digit H" "M \<noteq> []" "list_all is_digit M"
      "S \<noteq> []" "list_all is_digit S" and f: "F \<noteq> []" "CHR '','' \<notin> set F"
  proof -
    have c: "CHR '','' \<notin> set ?time" using h(2,4,6) by (rule time_no_comma)
    have "split_on CHR '','' (?time @ CHR '','' # F) = ?time # split_on CHR '','' F"
      using c by (rule split_on_at_separator)
    moreover have "split_on CHR '','' F = [F]"
      using f(2) by (rule split_on_no_separator)
    ultimately have s: "split_on CHR '','' (?time @ CHR '','' # F) = ?time # [F]" by simp
    have p: "map Number_str (split_on CHR '':'' ?time) =
        [js_lit (of_int (dec_val H)), js_lit (of_int (dec_val M)), js_lit (of_int (dec_val S))]"
      using h by (rule parse_parts)
    have "js_add ?whole
        (js_div (case nth_opt [F] 0 of
                   None \<Rightarrow> Fin 0
                 | Some ms \<Rightarrow> if truthy_str ms then Number_str ms else Fin 0) (Fin 1000))
        = js_add ?whole (js_div (Number_str F) (Fin 1000))"
      using f(1) by (simp add: truthy_str_def)
    with parseTimeToSeconds_parts [OF s p] show ?thesis by (rule trans)
  qed
  have digits_ms: "CHR '','' \<notin> set F \<and> Number_str F = js_lit (of_int (dec_val F))"
    if "F \<noteq> []" "list_all is_digit F"
    using that by (simp add: digits_no_separator Number_str_digits)
  have without_ms: "parseTimeToSeconds ?time = js_add ?whole (js_div (Fin 0) (Fin 1000))"
    and empty_ms: "parseTimeToSeconds (?time @ CHR '','' # []) =
      js_add ?whole (js_div (Fin 0) (Fin 1000))"
    if h: "H \<noteq> []" "list_all is_digit H" "M \<noteq> []" "list_all is_digit M"
      "S \<noteq> []" "list_all is_digit S"
  proof -
    have c: "CHR '','' \<notin> set ?time" using h(2,4,6) by (rule time_no_comma)
    have p: "map Number_str (split_on CHR '':'' ?time) =
        [js_lit (of_int (dec_val H)), js_lit (of_int (dec_val M)), js_lit (of_int (dec_val S))]"
      using h by (rule parse_parts)
    have s1: "split_on CHR '','' ?time = ?time # []"
      using c by (rule split_on_no_separator)
    have "js_add ?whole
        (js_div (case nth_opt ([] :: string list) 0 of
                   None \<Rightarrow> Fin 0
                 | Some ms \<Rightarrow> if truthy_str ms then Number_str ms else Fin 0) (Fin 1000))
        = js_add ?whole (js_div (Fin 0) (Fin 1000))"
      by simp
    with parseTimeToSeconds_parts [OF s1 p]
    show "parseTimeToSeconds ?time = js_add ?whole (js_div (Fin 0) (Fin 1000))"
      by (rule trans)
    have "split_on CHR '','' (?time @ CHR '','' # []) = ?time # split_on CHR '','' []"
      using c by (rule split_on_at_separator)
    then have s2: "split_on CHR '','' (?time @ CHR '','' # []) = ?time # [[]]" by simp
    have "js_add ?whole
        (js_div (case nth_opt [[]] 0 of
                   None \<Rightarrow> Fin 0
                 | Some ms \<Rightarrow> if truthy_str ms then Number_str ms else Fin 0) (Fin 1000))
        = js_add ?whole (js_div (Fin 0) (Fin 1000))"
      by (simp add: truthy_str_def)
    with parseTimeToSeconds_parts [OF s2 p]
    show "parseTimeToSeconds (?time @ CHR '','' # []) = js_add ?whole (js_div (Fin 0) (Fin 1000))"
      by (rule trans)
  qed
  have exact: "?whole = Fin (of_int (dec_val H * 3600 + dec_val M * 60 + dec_val S))
      \<and> js_add (Fin (of_int (dec_val H * 3600 + dec_val M * 60 + dec_val S)))
          (js_div (Fin 0) (Fin 1000))
        = Fin (of_int (dec_val H * 3600 + dec_val M * 60 + dec_val S))"
    if b: "dec_val H * 3600 + dec_val M * 60 + dec_val S < 2 ^ 53"
  proof -
    have n: "0 \<le> dec_val H" "0 \<le> dec_val M" "0 \<le> dec_val S" by (rule dec_val_nonneg)+
    then have "0 \<le> dec_val H * 3600 + dec_val M * 60 + dec_val S" by simp
    from js_add_zero_exact [OF this b] whole_seconds_exact [OF n b] show ?thesis by (rule conjI [rotated])
  qed
  have not_a_number: "parseTimeToSeconds (T @ CHR '','' # F) = NaN"
    if t: "CHR '','' \<notin> set T" and f: "F \<noteq> []" "CHR '','' \<notin> set F" "Number_str F = NaN"
  proof -
    have "split_on CHR '','' (T @ CHR '','' # F) = T # split_on CHR '','' F"
      using t by (rule split_on_at_separator)
    moreover have "split_on CHR '','' F = [F]"
      using f(2) by (rule split_on_no_separator)
    ultimately have "split_on CHR '','' (T @ CHR '','' # F) = T # F # []" by simp
    then show ?thesis using f(1,3) by (rule parseTimeToSeconds_NaN)
  qed
  show ?thesis
  proof (intro conjI impI)
    assume "H \<noteq> [] \<and> list_all is_digit H \<and> M \<noteq> [] \<and> list_all is_digit M
      \<and> S \<noteq> [] \<and> list_all is_digit S \<and> F \<noteq> [] \<and> CHR '','' \<notin> set F"
    then show "parseTimeToSeconds (H @ '':'' @ M @ '':'' @ S @ '','' @ F) =
        js_add ?whole (js_div (Number_str F) (Fin 1000))"
      using with_ms by simp
  next
    assume "F \<noteq> [] \<and> list_all is_digit F"
    then show "CHR '','' \<notin> set F" "Number_str F = js_lit (of_int (dec_val F))"
      using digits_ms by simp_all
  next
    assume h: "H \<noteq> [] \<and> list_all is_digit H \<and> M \<noteq> [] \<and> list_all is_digit M
      \<and> S \<noteq> [] \<and> list_all is_digit S"
    then show "parseTimeToSeconds (H @ '':'' @ M @ '':'' @ S) =
        js_add ?whole (js_div (Fin 0) (Fin 1000))"
      using without_ms by simp
    from h show "parseTimeToSeconds (H @ '':'' @ M @ '':'' @ S @ '','') =
        js_add ?whole (js_div (Fin 0) (Fin 1000))"
      using empty_ms by simp
  next
    assume b: "dec_val H * 3600 + dec_val M * 60 + dec_val S < 2 ^ 53"
    from exact [OF b]
    show "?whole = Fin (of_int (dec_val H * 3600 + dec_val M * 60 + dec_val S))"
      by (rule conjunct1)
    from exact [OF b]
    show "js_add (Fin (of_int (dec_val H * 3600 + dec_val M * 60 + dec_val S)))
          (js_div (Fin 0) (Fin 1000))
        = Fin (of_int (dec_val H * 3600 + dec_val M * 60 + dec_val S))"
      by (rule conjunct2)
  next
    assume "CHR '','' \<notin> set T \<and> F \<noteq> [] \<and> CHR '','' \<notin> set F \<and> Number_str F = NaN"
    then show "parseTimeToSeconds (T @ '','' @ F) = NaN"
      using not_a_number by simp
  qed
qed

theorem parseTimeToSeconds_formula_witness:
  "parseTimeToSeconds ''00:01:05,500'' = Fin (131 / 2)
   \<and> Number_str ''500'' = Fin 500
   \<and> parseTimeToSeconds ''00:01:05'' = Fin 65
   \<and> parseTimeToSeconds ''00:01:05,'' = Fin 65
   \<and> parseTimeToSeconds ''00:01:05,ms'' = NaN"
proof -
  have d: "''00'' \<noteq> [] \<and> list_all is_digit ''00'' \<and> ''01'' \<noteq> [] \<and> list_all is_digit ''01''
      \<and> ''05'' \<noteq> [] \<and> list_all is_digit ''05'' \<and> ''500'' \<noteq> [] \<and> list_all is_digit ''500''
      \<and> CHR '','' \<notin> set ''500''"
    by (simp add: is_digit_iff)
  have v: "dec_val ''00'' = 0" "dec_val ''01'' = 1" "dec_val ''05'' = 5" "dec_val ''500'' = 500"
    by code_simp+
  have e: "js_lit 500 = Fin 500" "round_double (1 / 2) = Fin (1 / 2)"
    "round_double (131 / 2) = Fin (131 / 2)"
    by code_simp+
  have n: "CHR '','' \<notin> set ''00:01:05'' \<and> ''ms'' \<noteq> [] \<and> CHR '','' \<notin> set ''ms''" by simp
  have m: "Number_str ''ms'' = NaN" by code_simp
  note t = parseTimeToSeconds_formula [where H = "''00''" and M = "''01''" and S = "''05''"
      and F = "''500''" and T = "''00:01:05''"]
  from d t have f: "Number_str ''500'' = Fin 500" by (simp add: v e)
  from t have w: "js_add (js_add (js_mul (js_lit 0) (Fin 3600)) (js_mul (js_lit 1) (Fin 60)))
      (js_lit 5) = Fin 65"
    "js_add (Fin 65) (js_div (Fin 0) (Fin 1000)) = Fin 65"
    by (simp_all add: v)
  from d t have 1: "parseTimeToSeconds ''00:01:05,500'' = Fin (131 / 2)"
    by (simp add: v w f e)
  from d t have 2: "parseTimeToSeconds ''00:01:05'' = Fin 65" by (simp add: v w)
  from d t have 3: "parseTimeToSeconds ''00:01:05,'' = Fin 65" by (simp add: v w)
  from n m parseTimeToSeconds_formula [where T = "''00:01:05''" and F = "''ms''"]
  have 4: "parseTimeToSeconds ''00:01:05,ms'' = NaN" by simp
  from 1 f 2 3 4 show ?thesis by simp
qed

text \<open>Claim C6 as it was stated fails for a millisecond segment that is present and
  not a number: it is not replaced by 0, and the result is NaN, not 65. And the sum is
  one of doubles: for the string 00:00:01,118 it is the double below the one nearest
  to 1.118.\<close>

theorem parseTimeToSeconds_invalid_milliseconds:
  "parseTimeToSeconds ''00:01:05,abc'' = NaN \<and> parseTimeToSeconds ''00:01:05,abc'' \<noteq> Fin 65
   \<and> parseTimeToSeconds ''00:00:01,118'' = Fin (2517512191700107 / 2251799813685248)
   \<and> js_lit (559 / 500) = Fin (5035024383400215 / 4503599627370496)"
  by code_simp

subsection \<open>Object URLs of the manifest\<close>

text \<open>
  \<^verbatim>\<open>previousBlobUrl\<close> is written only by \<open>revokePreviousBlobUrl\<close>, which empties it:
  nothing ever stores the URL of a new blob there. So a response that arrives adds its
  object URL to the live ones and releases none, and so does every sequence of responses.
\<close>

lemma manifestArrives_never_revokes:
  "previousBlobUrl s = None \<Longrightarrow>
   \<exists>s'. manifestArrives d u s = Inr s' \<and> previousBlobUrl s' = None
      \<and> objectURLs s' = objectURLs s @ [u]"
  by (simp add: manifestArrives_def optionsEffect_def formatListEffect_def manifestFetched_def
      createObjectURL_def updateSrc_def initPlayer_def and_then_def call_onError_def
      call_onLoaded_def revokePreviousBlobUrl_def Let_def
      split: option.split)

lemma manifestsArrive_never_revoke:
  "previousBlobUrl s = None \<Longrightarrow>
   \<exists>s'. manifestsArrive ms s = Inr s' \<and> previousBlobUrl s' = None
      \<and> objectURLs s' = objectURLs s @ map snd ms"
proof (induction ms arbitrary: s)
  case Nil
  then show ?case by simp
next
  case (Cons m ms)
  obtain d u where m: "m = (d, u)" by (cases m)
  from manifestArrives_never_revokes [OF Cons.prems, of d u]
  obtain s1 where s1: "manifestArrives d u s = Inr s1" "previousBlobUrl s1 = None"
    "objectURLs s1 = objectURLs s @ [u]" by blast
  from Cons.IH [OF s1(2)]
  obtain s2 where s2: "manifestsArrive ms s1 = Inr s2" "previousBlobUrl s2 = None"
    "objectURLs s2 = objectURLs s1 @ map snd ms" by blast
  have "manifestsArrive (m # ms) s = Inr s2"
    by (simp add: m s1(1) s2(1) and_then_def)
  with s2(2,3) s1(3) m show ?case by simp
qed

text \<open>
  Claim C1. The claim is that at most one object URL is live at any time. On the code,
  after two responses for the mounted component both object URLs are live, and
  \<^verbatim>\<open>previousBlobUrl\<close> holds neither.
\<close>

theorem two_manifests_two_live_object_urls:
  "map_sum id objectURLs
     (and_then (manifestArrives manifest1 ''blob:1'' mounted) (manifestArrives manifest1 ''blob:2''))
     = Inr [''blob:1'', ''blob:2'']
   \<and> map_sum id previousBlobUrl
     (and_then (manifestArrives manifest1 ''blob:1'' mounted) (manifestArrives manifest1 ''blob:2''))
     = Inr None"
  by (simp add: manifestArrives_def optionsEffect_def formatListEffect_def manifestFetched_def
      createObjectURL_def updateSrc_def initPlayer_def and_then_def call_onError_def
      call_onLoaded_def revokePreviousBlobUrl_def Let_def truthy_str_def mounted_def)

end
